theory Spec2Isabelle
  imports Complex_Main "HOL-Library.AList"
begin

section \<open>JavaScript values, errors and promises\<close>

text \<open>
  The values a device property can hold: the primitive values of the language. A number
  of the language is a double; the model has the reals, NaN and the two infinities (the
  two zeros of the language are strictly equal and are one value here). A real that is
  not a double is a value the program never holds. Numbers are only compared and
  stored by the code modelled here, never computed with.
\<close>

datatype jsval =
  JUndefined | JNull | JBool bool | JNum real | JNaN | JInfinity | JNegInfinity | JStr string

datatype js_error = Error string | TypeError string

text \<open>
  What a promise settles to. Every asynchronous method of the device is run to the
  settlement of the promise it returns: the outcome of the one transport call it may
  make is an argument (\<open>reply\<close>), and the \<open>then\<close>/\<open>catch\<close> handler is applied at
  the point of the call, with no other operation interleaved.
\<close>

datatype 'a promise = Resolved 'a | Rejected js_error

text \<open>The value a promise of the device resolves with: \<open>undefined\<close> or a result object.\<close>

datatype result = RUndefined | RObj "(string \<times> jsval) list"

text \<open>The numbers that \<open>ToNumber\<close> of the language yields.\<close>

datatype number = Finite real | NaN | PosInfinity | NegInfinity

text \<open>\<open>a < b\<close> on numbers: false as soon as one of them is NaN.\<close>

fun num_lt :: "number \<Rightarrow> number \<Rightarrow> bool" where
  "num_lt (Finite x) (Finite y) = (x < y)"
| "num_lt (Finite x) PosInfinity = True"
| "num_lt NegInfinity (Finite y) = True"
| "num_lt NegInfinity PosInfinity = True"
| "num_lt _ _ = False"

text \<open>
  \<open>ToNumber\<close> of the language. Its conversion of a string (\<open>StringToNumber\<close>: white
  space, decimal, hexadecimal, octal and binary literals, exponents, \<open>Infinity\<close>, and
  the rounding to a double) is not modelled: it is the parameter \<open>toNum\<close>, and every
  statement below holds whatever function it is.
\<close>

type_synonym string_to_number = "string \<Rightarrow> number"

fun ToNumber :: "string_to_number \<Rightarrow> jsval \<Rightarrow> number" where
  "ToNumber toNum JUndefined = NaN"
| "ToNumber toNum JNull = Finite 0"
| "ToNumber toNum (JBool b) = Finite (if b then 1 else 0)"
| "ToNumber toNum (JNum x) = Finite x"
| "ToNumber toNum JNaN = NaN"
| "ToNumber toNum JInfinity = PosInfinity"
| "ToNumber toNum JNegInfinity = NegInfinity"
| "ToNumber toNum (JStr s) = toNum s"

text \<open>\<open>v > n\<close> and \<open>v < n\<close> for a number \<open>n\<close> of a value range.\<close>

definition js_gt :: "string_to_number \<Rightarrow> jsval \<Rightarrow> real \<Rightarrow> bool" where
  "js_gt toNum v n = num_lt (Finite n) (ToNumber toNum v)"

definition js_lt :: "string_to_number \<Rightarrow> jsval \<Rightarrow> real \<Rightarrow> bool" where
  "js_lt toNum v n = num_lt (ToNumber toNum v) (Finite n)"

text \<open>\<open>a === b\<close> on primitive values: NaN is not strictly equal to itself.\<close>

definition strict_eq :: "jsval \<Rightarrow> jsval \<Rightarrow> bool" where
  "strict_eq a b = (a = b \<and> a \<noteq> JNaN)"

text \<open>Truthiness of an optional string and of an optional number (\<open>None\<close> is \<open>undefined\<close>).\<close>

fun truthy_str :: "string option \<Rightarrow> bool" where
  "truthy_str None = False"
| "truthy_str (Some s) = (s \<noteq> [])"

fun truthy_num :: "int option \<Rightarrow> bool" where
  "truthy_num None = False"
| "truthy_num (Some n) = (n \<noteq> 0)"


section \<open>MiotProperty\<close>

text \<open>
  The class \<open>MiotProperty\<close> (\<open>./MiotProperty.js\<close>) is required by \<open>MiotDevice.js\<close>
  and is not among the sources. Everything in this section follows the specification's
  description of a Property (its sections 3 and 4.1). A property object is mutable and
  shared between the registry and the callers that hold it, so the device keeps the
  objects in a heap and passes references (see the state of the device below).
\<close>

text \<open>
  Modelled from the spec: the semantic type of a property, missing with
  \<open>MiotProperty.js\<close>: "format (semantic type: bool/int/float/enum/string)".
\<close>

datatype prop_format = FmtBool | FmtInt | FmtFloat | FmtEnum | FmtString

text \<open>
  Modelled from the spec: the access of a property, missing with \<open>MiotProperty.js\<close>:
  "access (readable/writable/both)".
\<close>

datatype prop_access = ReadOnly | WriteOnly | ReadWrite

text \<open>
  Modelled from the spec: the fields of a \<open>MiotProperty\<close>, missing with
  \<open>MiotProperty.js\<close>: the identity \<open>name\<close>, \<open>serviceId\<close>, \<open>propertyId\<close> (the
  \<open>siid\<close> and \<open>piid\<close> of \<open>addProperty\<close>), the shape "format, access, optional unit,
  optional valueRange (inclusive [min,max] or [min,max,step]), optional valueList
  (enumerated allowed values with descriptions)", and the state \<open>currentValue\<close>.
\<close>

record MiotProperty =
  name :: string
  siid :: int
  piid :: int
  format :: prop_format
  access :: prop_access
  unit :: "string option"
  valueRange :: "real list option"
  valueList :: "(jsval \<times> string) list option"
  currentValue :: jsval

text \<open>
  Modelled from the spec: the default of \<open>currentValue\<close>, missing with
  \<open>MiotProperty.js\<close>: "last known value, defaults to a type-appropriate zero value".
\<close>

fun zeroValue :: "prop_format \<Rightarrow> jsval" where
  "zeroValue FmtBool = JBool False"
| "zeroValue FmtString = JStr []"
| "zeroValue _ = JNum 0"

text \<open>Modelled from the spec: the constructor of \<open>MiotProperty\<close>, missing with \<open>MiotProperty.js\<close>.\<close>

definition newMiotProperty ::
  "string \<Rightarrow> int \<Rightarrow> int \<Rightarrow> prop_format \<Rightarrow> prop_access \<Rightarrow> string option \<Rightarrow>
   real list option \<Rightarrow> (jsval \<times> string) list option \<Rightarrow> MiotProperty" where
  "newMiotProperty n s p f a u vr vl =
     \<lparr> name = n, siid = s, piid = p, format = f, access = a, unit = u,
       valueRange = vr, valueList = vl, currentValue = zeroValue f \<rparr>"

text \<open>Modelled from the spec: \<open>getName\<close>, missing with \<open>MiotProperty.js\<close>: the identity \<open>name\<close>.\<close>

definition getName :: "MiotProperty \<Rightarrow> string" where
  "getName p = name p"

text \<open>
  Modelled from the spec: \<open>isReadable\<close>, missing with \<open>MiotProperty.js\<close>:
  "isReadable()/isWritable(): derived from access".
\<close>

definition isReadable :: "MiotProperty \<Rightarrow> bool" where
  "isReadable p = (access p = ReadOnly \<or> access p = ReadWrite)"

text \<open>
  Modelled from the spec: \<open>isWritable\<close>, missing with \<open>MiotProperty.js\<close>:
  "isReadable()/isWritable(): derived from access".
\<close>

definition isWritable :: "MiotProperty \<Rightarrow> bool" where
  "isWritable p = (access p = WriteOnly \<or> access p = ReadWrite)"

text \<open>
  Modelled from the spec: \<open>getValue\<close>, missing with \<open>MiotProperty.js\<close>:
  "returns cached value".
\<close>

definition getValue :: "MiotProperty \<Rightarrow> jsval" where
  "getValue p = currentValue p"

text \<open>
  Modelled from the spec: \<open>getSafeValue\<close>, missing with \<open>MiotProperty.js\<close>: "returns
  cached value or a numeric-safe fallback (0) when undefined".
\<close>

definition getSafeValue :: "MiotProperty \<Rightarrow> jsval" where
  "getSafeValue p = (if currentValue p = JUndefined then JNum 0 else currentValue p)"

text \<open>
  Modelled from the spec: \<open>setValue\<close>, missing with \<open>MiotProperty.js\<close>: "overwrites
  cache unconditionally (call-site responsible for validation); does not contact the
  device".
\<close>

definition setValue :: "MiotProperty \<Rightarrow> jsval \<Rightarrow> MiotProperty" where
  "setValue p v = p\<lparr>currentValue := v\<rparr>"

text \<open>
  Modelled from the spec: \<open>hasValueRange\<close> and \<open>getValueRange\<close>, missing with
  \<open>MiotProperty.js\<close>: the value range is optional; a property has one when it was
  declared with one.
\<close>

definition hasValueRange :: "MiotProperty \<Rightarrow> bool" where
  "hasValueRange p = (valueRange p \<noteq> None)"

definition getValueRange :: "MiotProperty \<Rightarrow> real list option" where
  "getValueRange p = valueRange p"

text \<open>
  Modelled from the spec: \<open>hasValueList\<close> and \<open>getValueList\<close>, missing with
  \<open>MiotProperty.js\<close>: the value list is optional; a property has one when it was
  declared with one.
\<close>

definition hasValueList :: "MiotProperty \<Rightarrow> bool" where
  "hasValueList p = (valueList p \<noteq> None)"

definition getValueList :: "MiotProperty \<Rightarrow> (jsval \<times> string) list option" where
  "getValueList p = valueList p"

text \<open>A request item of the wire format: \<open>{did, siid, piid[, value]}\<close>.\<close>

record protocol_obj =
  req_did :: "string option"
  req_siid :: int
  req_piid :: int
  req_value :: "jsval option"

text \<open>
  Modelled from the spec: \<open>getReadProtocolObjForDid\<close>, missing with \<open>MiotProperty.js\<close>:
  "builds a read request addressed by device id + serviceId + propertyId".
\<close>

definition getReadProtocolObjForDid :: "MiotProperty \<Rightarrow> string option \<Rightarrow> protocol_obj" where
  "getReadProtocolObjForDid p did =
     \<lparr> req_did = did, req_siid = siid p, req_piid = piid p, req_value = None \<rparr>"

text \<open>
  Modelled from the spec: \<open>getWriteProtocolObjForDid\<close>, missing with \<open>MiotProperty.js\<close>:
  "builds a write request addressed the same way, carrying value", and "Access-invalid
  operations (write to read-only) fail explicitly": on a property that is not writable
  the request is not built and an error is thrown.
\<close>

definition getWriteProtocolObjForDid ::
  "MiotProperty \<Rightarrow> string option \<Rightarrow> jsval \<Rightarrow> js_error + protocol_obj" where
  "getWriteProtocolObjForDid p did v =
     (if isWritable p
      then Inr \<lparr> req_did = did, req_siid = siid p, req_piid = piid p, req_value = Some v \<rparr>
      else Inl (Error ''Cannot write to a read only property!''))"


section \<open>The device\<close>

subsection \<open>State\<close>

text \<open>The identity fields of a transport handle (the \<open>miio\<close> device object).\<close>

record miio =
  miio_id :: string
  miioModel :: string

text \<open>What the device does on a transport handle: a remote call, or \<open>destroy()\<close>.\<close>

datatype miio_call = Call string "protocol_obj list" | Destroy

text \<open>One slot \<open>{code, value?}\<close> of a response array, and the outcome of a remote call.\<close>

record slot =
  slot_code :: "int option"
  slot_value :: jsval

datatype reply = Success "slot list" | Failure js_error

datatype log_level = LError | LWarn | LInfo | LDebug | LDeepDebug

text \<open>Modelled from the spec: the event name of \<open>../constants/Events.js\<close> (the property-updated notification).\<close>

datatype event = DEVICE_PROPERTY_UPDATED

text \<open>
  The fields of a \<open>MiotDevice\<close> object, and the three traces of what it did to its
  collaborators.

  \<^item> \<open>properties\<close> holds the own keys of the registry object \<open>this.properties\<close>, in
    the order of \<open>Object.keys\<close> (insertion order; an assignment to an existing key keeps
    its place), each with a reference to a \<open>MiotProperty\<close> object. Keys that are array
    indices, which \<open>Object.keys\<close> lists first, are outside the model.
  \<^item> \<open>registryProto\<close> is the prototype of the registry object: \<open>None\<close> for
    \<open>Object.prototype\<close>, which the object literal \<open>{}\<close> gives it, and \<open>Some r\<close> once
    an assignment to the key \<open>__proto__\<close> has replaced it by the property object \<open>r\<close>.
  \<^item> \<open>heap\<close> holds the \<open>MiotProperty\<close> objects; a reference is an index into it, and
    a reference held by the program is always that of an allocated object.
  \<^item> \<open>logger\<close> is what was written to \<open>this.logger\<close>: level and the message as the
    source's template, not interpolated.
  \<^item> \<open>emitted\<close> is what was emitted to the listeners (which are assumed not to throw).
  \<^item> \<open>calls\<close> is what was called on transport handles.

  The fields \<open>name\<close>, \<open>deviceInfo\<close>, \<open>deviceConfig\<close> and \<open>capabilities\<close> of the
  source are left out: the operations modelled here do not depend on them.
\<close>

record MiotDevice =
  deviceId :: "string option"
  model :: "string option"
  miioDevice :: "miio option"
  properties :: "(string \<times> nat) list"
  registryProto :: "nat option"
  heap :: "MiotProperty list"
  logger :: "(log_level \<times> string) list"
  emitted :: "(event \<times> nat) list"
  calls :: "miio_call list"

abbreviation COMMAND_GET :: string where "COMMAND_GET \<equiv> ''get_properties''"
abbreviation COMMAND_SET :: string where "COMMAND_SET \<equiv> ''set_properties''"

definition logMsg :: "log_level \<Rightarrow> string \<Rightarrow> MiotDevice \<Rightarrow> MiotDevice" where
  "logMsg lvl msg d = d\<lparr>logger := logger d @ [(lvl, msg)]\<rparr>"

subsection \<open>Info\<close>

definition isConnected :: "MiotDevice \<Rightarrow> bool" where
  "isConnected d = (miioDevice d \<noteq> None)"

text \<open>\<open>id.replace(/^miio:/, '')\<close>\<close>

definition strip_miio :: "string \<Rightarrow> string" where
  "strip_miio s = (if take 5 s = ''miio:'' then drop 5 s else s)"

definition getDeviceId :: "MiotDevice \<Rightarrow> string option" where
  "getDeviceId d =
     (case miioDevice d of
        Some m \<Rightarrow> Some (strip_miio (miio_id m))
      | None \<Rightarrow> deviceId d)"

subsection \<open>Metadata\<close>

text \<open>
  The names every object inherits from \<open>Object.prototype\<close>. Each is inherited with a
  function as its value, but \<open>__proto__\<close>, whose value is the prototype itself.
\<close>

definition Object_prototype_names :: "string list" where
  "Object_prototype_names =
     [''constructor'', ''__defineGetter__'', ''__defineSetter__'', ''hasOwnProperty'',
      ''__lookupGetter__'', ''__lookupSetter__'', ''isPrototypeOf'', ''propertyIsEnumerable'',
      ''toString'', ''valueOf'', ''__proto__'', ''toLocaleString'']"

text \<open>
  What the registry object holds under a key: a property object, or a member it
  inherits that is no property object (a function, or \<open>Object.prototype\<close> itself:
  truthy, and without the methods of a property).
\<close>

datatype registry_value = PropertyObject nat | InheritedMember

text \<open>
  \<open>this.properties[key]\<close>, \<open>None\<close> for \<open>undefined\<close>: an own key first, then the
  prototype. Through a prototype that has been replaced by a property object, the key
  \<open>__proto__\<close> yields that object and the names of \<open>Object.prototype\<close> are still
  inherited; the members of the property object itself are not followed, so lemmas on
  keys that are not own keys are stated for \<open>registryProto d = None\<close>.
\<close>

definition registry_get :: "MiotDevice \<Rightarrow> string \<Rightarrow> registry_value option" where
  "registry_get d key =
     (case map_of (properties d) key of
        Some r \<Rightarrow> Some (PropertyObject r)
      | None \<Rightarrow>
          (case registryProto d of
             Some r \<Rightarrow>
               if key = ''__proto__'' then Some (PropertyObject r)
               else if key \<in> set Object_prototype_names then Some InheritedMember
               else None
           | None \<Rightarrow>
               if key \<in> set Object_prototype_names then Some InheritedMember else None))"

text \<open>
  \<open>addProperty\<close> returns the new property, or \<open>undefined\<close> (\<open>None\<close>) when it skips.
  \<open>new MiotProperty\<close> allocates at the end of the heap. The assignment
  \<open>this.properties[name] = newProp\<close> makes or overwrites an own key, but for the name
  \<open>__proto__\<close>, where it replaces the prototype of the registry object.
\<close>

definition addProperty ::
  "MiotDevice \<Rightarrow> string option \<Rightarrow> int option \<Rightarrow> int option \<Rightarrow> prop_format \<Rightarrow> prop_access \<Rightarrow>
   string option \<Rightarrow> real list option \<Rightarrow> (jsval \<times> string) list option \<Rightarrow> MiotDevice \<times> nat option" where
  "addProperty d nm si pid fmt acc un vr vl =
     (if \<not> truthy_str nm then
        (logMsg LWarn ''Missing name! Cannot create property!'' d, None)
      else if \<not> truthy_num si \<or> \<not> truthy_num pid then
        (logMsg LWarn ''Missing siid or piid for ${name} property! Cannot create!'' d, None)
      else
        (case (nm, si, pid) of
           (Some n, Some s, Some p) \<Rightarrow>
             (let newProp = newMiotProperty n s p fmt acc un vr vl;
                  r = length (heap d);
                  d1 = d\<lparr>heap := heap d @ [newProp]\<rparr>
              in (if n = ''__proto__'' then d1\<lparr>registryProto := Some r\<rparr>
                  else d1\<lparr>properties := AList.update n r (properties d)\<rparr>,
                  Some r))
         | _ \<Rightarrow> (d, None)))"

definition hasProperty :: "MiotDevice \<Rightarrow> string \<Rightarrow> bool" where
  "hasProperty d propName = (registry_get d propName \<noteq> None)"

subsection \<open>Property helpers\<close>

text \<open>
  \<open>getProperty\<close> returns what the registry object holds under the name when that is
  truthy (a property object, or an inherited member), and \<open>null\<close> (\<open>None\<close>) after a
  warning otherwise.
\<close>

definition getProperty :: "MiotDevice \<Rightarrow> string \<Rightarrow> MiotDevice \<times> registry_value option" where
  "getProperty d propName =
     (case registry_get d propName of
        Some prop \<Rightarrow> (d, Some prop)
      | None \<Rightarrow> (logMsg LWarn ''The property ${propName} was not found on this deivce!'' d, None))"

text \<open>
  The four getters return a value or throw: a method call on an inherited member, which
  has no such method, is a TypeError, and so is a method call on \<open>null\<close>.
\<close>

definition getPropertyValue :: "MiotDevice \<Rightarrow> string \<Rightarrow> MiotDevice \<times> (js_error + jsval)" where
  "getPropertyValue d propName =
     (case getProperty d propName of
        (d', Some (PropertyObject prop)) \<Rightarrow> (d', Inr (getValue (heap d' ! prop)))
      | (d', Some InheritedMember) \<Rightarrow> (d', Inl (TypeError ''prop.getValue is not a function''))
      | (d', None) \<Rightarrow> (d', Inr JUndefined))"

definition getSafePropertyValue :: "MiotDevice \<Rightarrow> string \<Rightarrow> MiotDevice \<times> (js_error + jsval)" where
  "getSafePropertyValue d propName =
     (case getProperty d propName of
        (d', Some (PropertyObject prop)) \<Rightarrow> (d', Inr (getSafeValue (heap d' ! prop)))
      | (d', Some InheritedMember) \<Rightarrow> (d', Inl (TypeError ''prop.getSafeValue is not a function''))
      | (d', None) \<Rightarrow> (d', Inr (JNum 0)))"

definition getPropertyValueRange :: "MiotDevice \<Rightarrow> string \<Rightarrow> MiotDevice \<times> (js_error + real list)" where
  "getPropertyValueRange d propName =
     (if hasProperty d propName then
        (case getProperty d propName of
           (d', Some (PropertyObject prop)) \<Rightarrow>
             (if hasValueRange (heap d' ! prop)
              then (case getValueRange (heap d' ! prop) of
                      Some rng \<Rightarrow> (d', Inr rng)
                    | None \<Rightarrow> (d', Inr []))
              else (d', Inr []))
         | (d', Some InheritedMember) \<Rightarrow>
             (d', Inl (TypeError ''prop.hasValueRange is not a function''))
         | (d', None) \<Rightarrow> (d', Inl (TypeError ''Cannot read properties of null'')))
      else (d, Inr []))"

definition getPropertyValueList ::
  "MiotDevice \<Rightarrow> string \<Rightarrow> MiotDevice \<times> (js_error + (jsval \<times> string) list)" where
  "getPropertyValueList d propName =
     (if hasProperty d propName then
        (case getProperty d propName of
           (d', Some (PropertyObject prop)) \<Rightarrow>
             (if hasValueList (heap d' ! prop)
              then (case getValueList (heap d' ! prop) of
                      Some vals \<Rightarrow> (d', Inr vals)
                    | None \<Rightarrow> (d', Inr []))
              else (d', Inr []))
         | (d', Some InheritedMember) \<Rightarrow>
             (d', Inl (TypeError ''prop.hasValueList is not a function''))
         | (d', None) \<Rightarrow> (d', Inl (TypeError ''Cannot read properties of null'')))
      else (d, Inr []))"


subsection \<open>Protocol\<close>

text \<open>
  \<open>createErrorPromise\<close>: the promise is rejected and the rejection is caught at once by
  the handler that logs it, so the promise returned is one that resolves, with the
  handler's \<open>undefined\<close>.
\<close>

definition createErrorPromise :: "MiotDevice \<Rightarrow> string \<Rightarrow> MiotDevice \<times> result promise" where
  "createErrorPromise d msg = (logMsg LDebug msg d, Resolved RUndefined)"

text \<open>The readable properties, as the object \<open>tmpAllReadableProps\<close>: keys in registry order.\<close>

definition getAllReadableProps :: "MiotDevice \<Rightarrow> (string \<times> nat) list" where
  "getAllReadableProps d = filter (\<lambda>(key, tmpProp). isReadable (heap d ! tmpProp)) (properties d)"

text \<open>
  \<open>updatePropertyValueFromDevice\<close> returns the result object \<open>result\<close> as it leaves it;
  \<open>getProperty(propName).setValue\<close> on a name that is not registered is a method call
  on \<open>null\<close> or on an inherited member, a TypeError.
\<close>

definition updatePropertyValueFromDevice ::
  "MiotDevice \<Rightarrow> (string \<times> jsval) list \<Rightarrow> string \<Rightarrow> slot \<Rightarrow>
   MiotDevice \<times> (js_error + (string \<times> jsval) list)" where
  "updatePropertyValueFromDevice d res propName returnObj =
     (if slot_code returnObj = Some 0 then
        (case getProperty d propName of
           (d', Some (PropertyObject prop)) \<Rightarrow>
             (d'\<lparr>heap := (heap d')[prop := setValue (heap d' ! prop) (slot_value returnObj)]\<rparr>,
              Inr (AList.update propName (slot_value returnObj) res))
         | (d', Some InheritedMember) \<Rightarrow>
             (d', Inl (TypeError ''this.getProperty(...).setValue is not a function''))
         | (d', None) \<Rightarrow> (d', Inl (TypeError ''Cannot read properties of null'')))
      else if slot_code returnObj \<noteq> Some 0 \<or> slot_value returnObj = JUndefined then
        (logMsg LDebug
           ''Error while parsing response from device for property ${propName}. Response object: ${JSON.stringify(returnObj)}'' d,
         Inr res)
      else (d, Inr res))"

text \<open>
  \<open>setProperty(prop, value)\<close>; \<open>prop\<close> is a property object or \<open>null\<close>/\<open>undefined\<close>.
  An error thrown while the request is built rejects the promise of this \<open>async\<close> method.
\<close>

definition setProperty ::
  "MiotDevice \<Rightarrow> nat option \<Rightarrow> jsval \<Rightarrow> reply \<Rightarrow> MiotDevice \<times> result promise" where
  "setProperty d prop v reply =
     (case prop of
        None \<Rightarrow> createErrorPromise d ''Missing property! Cannot set the value!''
      | Some r \<Rightarrow>
          if isConnected d then
            (case getWriteProtocolObjForDid (heap d ! r) (deviceId d) v of
               Inl err \<Rightarrow> (d, Rejected err)
             | Inr propDef \<Rightarrow>
                 (let d1 = logMsg LDeepDebug
                             ''Set ${prop.getName()} property request! RAW: ${JSON.stringify(propDef)}'' d;
                      d2 = d1\<lparr>calls := calls d1 @ [Call COMMAND_SET [propDef]]\<rparr>
                  in (case reply of
                        Success rs \<Rightarrow>
                          (let d3 = logMsg LDebug
                                      ''Successfully set property ${prop.getName()} to value ${value}! Result: ${JSON.stringify(result)}'' d2;
                               d4 = d3\<lparr>heap := (heap d3)[r := setValue (heap d3 ! r) v]\<rparr>;
                               d5 = d4\<lparr>emitted := emitted d4 @ [(DEVICE_PROPERTY_UPDATED, r)]\<rparr>
                           in (d5, Resolved RUndefined))
                      | Failure err \<Rightarrow>
                          (logMsg LDebug
                             ''Error while setting property ${prop.getName()} to value ${value}! ${err}'' d2,
                           Resolved RUndefined))))
          else createErrorPromise d
                 ''Cannot set property ${prop.getName()} to value ${value}! Device not connected!'')"

text \<open>
  The loop of \<open>requestAllProperties\<close> over the response array. \<open>readablePropKeys[i]\<close>
  beyond the end of the array is \<open>undefined\<close>, which as a property key is the string
  \<open>undefined\<close>. An error thrown in the handler rejects the promise and leaves the
  updates made so far.
\<close>

function requestAllProperties_loop ::
  "MiotDevice \<Rightarrow> (string \<times> jsval) list \<Rightarrow> string list \<Rightarrow> slot list \<Rightarrow> nat \<Rightarrow>
   MiotDevice \<times> result promise" where
  "requestAllProperties_loop d obj readablePropKeys res i =
     (if i < length res then
        (case updatePropertyValueFromDevice d obj
                (if i < length readablePropKeys then readablePropKeys ! i else ''undefined'')
                (res ! i) of
           (d', Inl err) \<Rightarrow> (d', Rejected err)
         | (d', Inr obj') \<Rightarrow> requestAllProperties_loop d' obj' readablePropKeys res (Suc i))
      else (d, Resolved (RObj obj)))"
  by pat_completeness auto
termination
  by (relation "measure (\<lambda>(d, obj, ks, res, i). length res - i)") auto

declare requestAllProperties_loop.simps [simp del]

definition requestAllProperties :: "MiotDevice \<Rightarrow> reply \<Rightarrow> MiotDevice \<times> result promise" where
  "requestAllProperties d reply =
     (if isConnected d then
        (let allReadableProps = getAllReadableProps d;
             readablePropKeys = map fst allReadableProps;
             allReadableProtcolProps =
               map (\<lambda>(key, prop). getReadProtocolObjForDid (heap d ! prop) (deviceId d)) allReadableProps;
             d1 = d\<lparr>calls := calls d @ [Call COMMAND_GET allReadableProtcolProps]\<rparr>
         in (case reply of
               Success res \<Rightarrow> requestAllProperties_loop d1 [] readablePropKeys res 0
             | Failure err \<Rightarrow> (d1, Rejected err)))
      else createErrorPromise d ''Cannot poll all properties! Device not connected!'')"

text \<open>
  \<open>setPropertyValue\<close> (a property helper of the source, placed here after
  \<open>setProperty\<close>, which it calls) returns nothing, or throws (the second component):
  for an inherited member, \<open>prop.getValueRange()\<close> is a TypeError. The promise of
  \<open>setProperty\<close> is dropped. \<open>reply\<close> is the outcome of the write call, should one be
  made.
\<close>

definition setPropertyValue ::
  "string_to_number \<Rightarrow> MiotDevice \<Rightarrow> string \<Rightarrow> jsval \<Rightarrow> reply \<Rightarrow> MiotDevice \<times> js_error option" where
  "setPropertyValue toNum d propName v reply =
     (case getProperty d propName of
        (d1, None) \<Rightarrow> (d1, None)
      | (d1, Some InheritedMember) \<Rightarrow> (d1, Some (TypeError ''prop.getValueRange is not a function''))
      | (d1, Some (PropertyObject prop)) \<Rightarrow>
          (let propRange = getValueRange (heap d1 ! prop);
               (d2, v2) =
                 (case propRange of
                    Some (low # high # _) \<Rightarrow>
                      if js_gt toNum v high then
                        (logMsg LDebug
                           ''Trying to set ${prop.getName()} property with an out of range value: ${value}. Adjusting value to max: ${high}'' d1,
                         JNum high)
                      else if js_lt toNum v low then
                        (logMsg LDebug
                           ''Trying to set ${prop.getName()} property with an out of range value: ${value}. Adjusting value to min: ${low}'' d1,
                         JNum low)
                      else (d1, v)
                  | _ \<Rightarrow> (d1, v))
           in if \<not> strict_eq (getValue (heap d2 ! prop)) v2
              then (fst (setProperty d2 (Some prop) v2 reply), None)
              else (logMsg LDebug
                      ''Property ${prop.getName()} seems to have already the value: ${value}. Set not needed! Skipping...'' d2,
                    None)))"

subsection \<open>Lifecycle\<close>

definition pollProperties :: "MiotDevice \<Rightarrow> reply \<Rightarrow> MiotDevice \<times> result promise" where
  "pollProperties d reply =
     (if isConnected d then requestAllProperties d reply
      else (d, Rejected (Error ''Device not connected'')))"

text \<open>The hooks "implemented by devices" have an empty body in this class.\<close>

definition initDeviceProperties :: "MiotDevice \<Rightarrow> MiotDevice" where
  "initDeviceProperties d = d"

definition initDeviceCapabilities :: "MiotDevice \<Rightarrow> MiotDevice" where
  "initDeviceCapabilities d = d"

definition deviceSpecificSetup :: "MiotDevice \<Rightarrow> MiotDevice" where
  "deviceSpecificSetup d = d"

definition initialPropertyFetchDone :: "MiotDevice \<Rightarrow> MiotDevice" where
  "initialPropertyFetchDone d = d"

text \<open>
  \<open>supportsUseTimeReporting\<close> and \<open>getUseTime\<close> are methods of the device classes,
  not of this one; the device is taken not to report a use time.
\<close>

definition gotInitialPropertiesFromDevice :: "MiotDevice \<Rightarrow> MiotDevice" where
  "gotInitialPropertiesFromDevice d = initialPropertyFetchDone d"

definition doInitialPropertiesFetch :: "MiotDevice \<Rightarrow> reply \<Rightarrow> MiotDevice" where
  "doInitialPropertiesFetch d reply =
     (let d1 = logMsg LInfo ''Doing initial properties fetch'' d
      in (case requestAllProperties d1 reply of
            (d2, Resolved _) \<Rightarrow>
              gotInitialPropertiesFromDevice
                (logMsg LDebug
                   ''Got initial device properties: ${JSON.stringify(this.getAllPropNameValues(), null, 2)}'' d2)
          | (d2, Rejected err) \<Rightarrow> logMsg LDebug ''Error on initial property request! ${err}'' d2))"

text \<open>\<open>this.deviceInfo\<close> is the object \<open>{}\<close> from the constructor on, so the guard \<open>!this.deviceInfo\<close> is false.\<close>

definition fetchDeviceInfo :: "MiotDevice \<Rightarrow> MiotDevice" where
  "fetchDeviceInfo d = d"

definition checkDid :: "MiotDevice \<Rightarrow> MiotDevice" where
  "checkDid d =
     (if \<not> truthy_str (getDeviceId d) then
        logMsg LWarn
          ''Error: Could not find deviceId for ${this.name}! This may cause issues! Please specify a deviceId in the 'config.json' file!'' d
      else d)"

text \<open>
  \<open>reply\<close> is the outcome of the call of the initial fetch. The handlers of the fetch
  run when its promise settles, after \<open>setupDevice\<close> has returned; here they run inside
  \<open>doInitialPropertiesFetch\<close>, so their log entries come before the last one of
  \<open>setupDevice\<close> and not after it.
\<close>

definition setupDevice :: "MiotDevice \<Rightarrow> reply \<Rightarrow> MiotDevice" where
  "setupDevice d reply =
     (let d1 = logMsg LInfo ''Setting up device!'' d;
          d2 = fetchDeviceInfo d1;
          d3 = (if \<not> truthy_str (deviceId d2) then
                  logMsg LInfo ''Did not specified. Got did: ${this.deviceId} from device!''
                    (d2\<lparr>deviceId := getDeviceId d2\<rparr>)
                else d2);
          d4 = checkDid d3;
          d5 = logMsg LInfo ''Doing device specific setup'' d4;
          d6 = deviceSpecificSetup d5;
          d7 = doInitialPropertiesFetch d6 reply
      in logMsg LInfo ''Device setup finished! Device ready, you can now control your device!'' d7)"

subsection \<open>Device control\<close>

definition disconnectAndDestroyMiioDevice :: "MiotDevice \<Rightarrow> MiotDevice" where
  "disconnectAndDestroyMiioDevice d =
     (let d1 = (if miioDevice d \<noteq> None then d\<lparr>calls := calls d @ [Destroy]\<rparr> else d)
      in d1\<lparr>miioDevice := None\<rparr>)"

text \<open>\<open>reply\<close> is the outcome of the call of the initial fetch, should setup run.\<close>

definition updateMiioDevice :: "MiotDevice \<Rightarrow> miio option \<Rightarrow> reply \<Rightarrow> MiotDevice" where
  "updateMiioDevice d newMiioDevice reply =
     (if miioDevice d = None then
        setupDevice (d\<lparr>miioDevice := newMiioDevice\<rparr>) reply
      else
        logMsg LInfo ''Reconnected to device!'' (d\<lparr>miioDevice := newMiioDevice\<rparr>))"

subsection \<open>Construction\<close>

definition initDevice :: "MiotDevice \<Rightarrow> MiotDevice" where
  "initDevice d =
     (let d1 = logMsg LInfo ''Initializing device properties'' d;
          d2 = initDeviceProperties d1;
          d3 = logMsg LDebug ''Device properties: ${JSON.stringify(this.properties, null, 2)}'' d2;
          d4 = logMsg LInfo ''Initializing device capabilities'' d3;
          d5 = initDeviceCapabilities d4
      in logMsg LDebug ''Device capabillities: ${JSON.stringify(this.capabilities, null, 2)}'' d5)"

text \<open>
  The constructor (the \<open>name\<close> and the logger of the source are left out: the name is
  used in messages only). \<open>reply\<close> is the outcome of the call of the initial fetch,
  should the device be constructed with a transport handle.
\<close>

definition newMiotDevice :: "miio option \<Rightarrow> string option \<Rightarrow> string option \<Rightarrow> reply \<Rightarrow> MiotDevice" where
  "newMiotDevice miioDev mdl dId reply =
     (let d0 = \<lparr> deviceId = dId, model = mdl, miioDevice = None, properties = [],
                 registryProto = None, heap = [], logger = [], emitted = [], calls = [] \<rparr>;
          d1 = (if \<not> truthy_str mdl then logMsg LError ''Missing model information!'' d0 else d0);
          d2 = initDevice d1
      in (case miioDev of
            Some m \<Rightarrow> updateMiioDevice d2 (Some m) reply
          | None \<Rightarrow> d2))"

text \<open>
  The value \<open>setPropertyValue\<close> goes on with after its range check: the second
  component of the pair \<open>(d2, v2)\<close> there. It serves to state lemmas only.
\<close>

definition adjustedValue :: "string_to_number \<Rightarrow> real list option \<Rightarrow> jsval \<Rightarrow> jsval" where
  "adjustedValue toNum propRange v =
     (case propRange of
        Some (low # high # _) \<Rightarrow>
          if js_gt toNum v high then JNum high else if js_lt toNum v low then JNum low else v
      | _ \<Rightarrow> v)"

text \<open>
  The registry as \<open>addProperty\<close> builds it: no key twice, no property object under
  two keys, every reference that of an allocated object, and no own key \<open>__proto__\<close>.
\<close>

definition wf_device :: "MiotDevice \<Rightarrow> bool" where
  "wf_device d =
     (distinct (map fst (properties d)) \<and> distinct (map snd (properties d))
      \<and> list_all (\<lambda>r. r < length (heap d)) (map snd (properties d))
      \<and> list_all (\<lambda>key. key \<noteq> ''__proto__'') (map fst (properties d)))"

subsection \<open>Example devices\<close>

text \<open>
  A fan with the properties \<open>power\<close> (no range) and \<open>fan_level\<close> (range 1 to 3):
  constructed without a transport handle, and after its first attach, whose initial
  fetch answered \<open>true\<close> and \<open>2\<close>.
\<close>

definition example_unbound :: MiotDevice where
  "example_unbound =
     fst (addProperty
       (fst (addProperty (newMiotDevice None (Some ''zhimi.fan.za5'') (Some ''123'') (Success []))
          (Some ''power'') (Some 2) (Some 1) FmtBool ReadWrite None None None))
       (Some ''fan_level'') (Some 2) (Some 2) FmtInt ReadWrite None (Some [1, 3]) None)"

definition example_handle :: miio where
  "example_handle = \<lparr> miio_id = ''miio:123'', miioModel = ''zhimi.fan.za5'' \<rparr>"

definition example_ready :: MiotDevice where
  "example_ready =
     updateMiioDevice example_unbound (Some example_handle)
       (Success [\<lparr>slot_code = Some 0, slot_value = JBool True\<rparr>,
                 \<lparr>slot_code = Some 0, slot_value = JNum 2\<rparr>])"

section \<open>Evaluation of the examples\<close>

lemmas model_defs =
  newMiotDevice_def initDevice_def initDeviceProperties_def initDeviceCapabilities_def
  logMsg_def addProperty_def newMiotProperty_def updateMiioDevice_def setupDevice_def
  fetchDeviceInfo_def checkDid_def getDeviceId_def deviceSpecificSetup_def
  doInitialPropertiesFetch_def requestAllProperties_def isConnected_def
  getAllReadableProps_def isReadable_def isWritable_def getReadProtocolObjForDid_def
  getWriteProtocolObjForDid_def requestAllProperties_loop.simps
  updatePropertyValueFromDevice_def getProperty_def setValue_def getValue_def
  gotInitialPropertiesFromDevice_def initialPropertyFetchDone_def strip_miio_def
  createErrorPromise_def setProperty_def setPropertyValue_def getValueRange_def
  js_gt_def js_lt_def strict_eq_def registry_get_def Object_prototype_names_def
  disconnectAndDestroyMiioDevice_def pollProperties_def hasProperty_def Let_def

lemma example_unbound_eval:
  "properties example_unbound = [(''power'', 0), (''fan_level'', 1)]"
  "registryProto example_unbound = None"
  "miioDevice example_unbound = None"
  "calls example_unbound = []"
  "deviceId example_unbound = Some ''123''"
  "emitted example_unbound = []"
  "heap example_unbound =
      [\<lparr>name = ''power'', siid = 2, piid = 1, format = FmtBool,
          access = ReadWrite, unit = None, valueRange = None,
          valueList = None, currentValue = JBool False\<rparr>,
       \<lparr>name = ''fan_level'', siid = 2, piid = 2, format = FmtInt,
          access = ReadWrite, unit = None, valueRange = Some [1, 3],
          valueList = None, currentValue = JNum 0\<rparr>]"
  by (simp_all add: example_unbound_def model_defs)

lemma example_ready_eval:
  "properties example_ready = [(''power'', 0), (''fan_level'', 1)]"
  "registryProto example_ready = None"
  "miioDevice example_ready = Some example_handle"
  "deviceId example_ready = Some ''123''"
  "emitted example_ready = []"
  "heap example_ready =
      [\<lparr>name = ''power'', siid = 2, piid = 1, format = FmtBool,
          access = ReadWrite, unit = None, valueRange = None,
          valueList = None, currentValue = JBool True\<rparr>,
       \<lparr>name = ''fan_level'', siid = 2, piid = 2, format = FmtInt,
          access = ReadWrite, unit = None, valueRange = Some [1, 3],
          valueList = None, currentValue = JNum 2\<rparr>]"
  "calls example_ready =
      [Call COMMAND_GET
        [\<lparr>req_did = Some ''123'', req_siid = 2, req_piid = 1, req_value = None\<rparr>,
         \<lparr>req_did = Some ''123'', req_siid = 2, req_piid = 2, req_value = None\<rparr>]]"
  by (simp_all add: example_ready_def example_unbound_eval example_handle_def model_defs)

lemma example_connected:
  "\<not> isConnected example_unbound" "isConnected example_ready"
  by (simp_all add: isConnected_def example_unbound_eval example_ready_eval)


section \<open>Well-formed devices\<close>

lemma update_fresh_key:
  "k \<notin> fst ` set al \<Longrightarrow> AList.update k v al = al @ [(k, v)]"
  by (induction al) auto

lemma snd_update_subset:
  "set (map snd (AList.update k v al)) \<subseteq> insert v (set (map snd al))"
  by (induction al) auto

lemma distinct_snd_update:
  "distinct (map snd al) \<Longrightarrow> v \<notin> set (map snd al) \<Longrightarrow> distinct (map snd (AList.update k v al))"
proof (induction al)
  case Nil
  then show ?case by simp
next
  case (Cons p al)
  have "set (map snd (AList.update k v al)) \<subseteq> insert v (set (map snd al))"
    by (rule snd_update_subset)
  with Cons show ?case by auto
qed

text \<open>The constructor and \<open>addProperty\<close> build well-formed devices only.\<close>

lemma wf_device_new: "wf_device (newMiotDevice None mdl dId reply)"
  by (simp add: wf_device_def newMiotDevice_def initDevice_def initDeviceProperties_def
        initDeviceCapabilities_def logMsg_def Let_def)

lemma wf_device_addProperty:
  assumes "wf_device d"
  shows "wf_device (fst (addProperty d nm si pid fmt acc un vr vl))"
proof (cases "truthy_str nm \<and> truthy_num si \<and> truthy_num pid")
  case False
  then show ?thesis using assms
    by (auto simp add: addProperty_def wf_device_def logMsg_def)
next
  case True
  then obtain n s p where args: "nm = Some n" "si = Some s" "pid = Some p"
    by (cases nm; cases si; cases pid) auto
  let ?r = "length (heap d)"
  show ?thesis
  proof (cases "n = ''__proto__''")
    case True
    have eq: "fst (addProperty d nm si pid fmt acc un vr vl) =
                d\<lparr>heap := heap d @ [newMiotProperty n s p fmt acc un vr vl],
                  registryProto := Some ?r\<rparr>"
      using \<open>truthy_str nm \<and> truthy_num si \<and> truthy_num pid\<close> args True
      by (simp add: addProperty_def Let_def)
    show ?thesis
      using assms by (auto simp add: eq wf_device_def list_all_iff)
  next
    case False
    have fresh: "?r \<notin> set (map snd (properties d))"
      using assms by (auto simp add: wf_device_def list_all_iff)
    have eq: "fst (addProperty d nm si pid fmt acc un vr vl) =
                d\<lparr>heap := heap d @ [newMiotProperty n s p fmt acc un vr vl],
                  properties := AList.update n ?r (properties d)\<rparr>"
      using \<open>truthy_str nm \<and> truthy_num si \<and> truthy_num pid\<close> args False
      by (simp add: addProperty_def Let_def)
    have "list_all (\<lambda>r. r < Suc ?r) (map snd (AList.update n ?r (properties d)))"
      using assms snd_update_subset [of n ?r "properties d"]
      by (fastforce simp add: wf_device_def list_all_iff)
    moreover have "list_all (\<lambda>key. key \<noteq> ''__proto__'') (map fst (AList.update n ?r (properties d)))"
      using assms False dom_update [of n ?r "properties d"]
      by (auto simp add: wf_device_def list_all_iff)
    ultimately show ?thesis
      using assms fresh
      by (simp add: eq wf_device_def distinct_update distinct_snd_update)
  qed
qed

lemma wf_device_example: "wf_device example_unbound"
  unfolding example_unbound_def by (intro wf_device_addProperty wf_device_new)


section \<open>Frame lemmas\<close>

lemma logMsg_fields [simp]:
  "heap (logMsg l m d) = heap d"
  "properties (logMsg l m d) = properties d"
  "calls (logMsg l m d) = calls d"
  "emitted (logMsg l m d) = emitted d"
  "miioDevice (logMsg l m d) = miioDevice d"
  "deviceId (logMsg l m d) = deviceId d"
  "registryProto (logMsg l m d) = registryProto d"
  "isConnected (logMsg l m d) = isConnected d"
  by (simp_all add: logMsg_def isConnected_def)

lemma registry_get_logMsg [simp]:
  "registry_get (logMsg l m d) key = registry_get d key"
  by (simp add: registry_get_def split: option.split)

text \<open>An own key of the registry object is found before its prototype is asked.\<close>

lemma registry_get_own:
  "map_of (properties d) key = Some r \<Longrightarrow> registry_get d key = Some (PropertyObject r)"
  by (simp add: registry_get_def)

lemma setProperty_calls:
  "calls (fst (setProperty d (Some r) v reply)) =
     calls d @ (if isConnected d \<and> isWritable (heap d ! r)
                then [Call COMMAND_SET
                        [\<lparr>req_did = deviceId d, req_siid = siid (heap d ! r),
                          req_piid = piid (heap d ! r), req_value = Some v\<rparr>]]
                else [])"
  by (cases reply)
     (simp_all add: setProperty_def getWriteProtocolObjForDid_def createErrorPromise_def Let_def)

lemma setProperty_heap:
  "heap (fst (setProperty d (Some r) v reply)) =
     (case reply of
        Success rs \<Rightarrow> if isConnected d \<and> isWritable (heap d ! r)
                      then (heap d)[r := setValue (heap d ! r) v] else heap d
      | Failure err \<Rightarrow> heap d)"
  by (cases reply)
     (simp_all add: setProperty_def getWriteProtocolObjForDid_def createErrorPromise_def Let_def)

lemma setProperty_frame [simp]:
  "properties (fst (setProperty d prop v reply)) = properties d"
  "miioDevice (fst (setProperty d prop v reply)) = miioDevice d"
  "deviceId (fst (setProperty d prop v reply)) = deviceId d"
  "registryProto (fst (setProperty d prop v reply)) = registryProto d"
  "isConnected (fst (setProperty d prop v reply)) = isConnected d"
  by (cases "prop"; cases "reply";
      simp add: setProperty_def getWriteProtocolObjForDid_def createErrorPromise_def Let_def
        isConnected_def)+

lemma adjustedValue_clamp:
  "lo \<le> hi \<Longrightarrow> adjustedValue toNum (Some (lo # hi # rest)) (JNum x) = JNum (max lo (min hi x))"
  by (simp add: adjustedValue_def js_gt_def js_lt_def max_def min_def)

lemma adjustedValue_no_range:
  "adjustedValue toNum None v = v" "adjustedValue toNum (Some []) v = v"
  "adjustedValue toNum (Some [a]) v = v"
  by (simp_all add: adjustedValue_def)

lemma adjustedValue_NaN:
  "v \<noteq> JNaN \<Longrightarrow> adjustedValue toNum propRange v \<noteq> JNaN"
  by (auto simp add: adjustedValue_def split: option.splits list.splits)

text \<open>
  What \<open>setPropertyValue\<close> does for a registered property: it logs, and either skips
  or hands the adjusted value to \<open>setProperty\<close>; it does not throw.
\<close>

lemma setPropertyValue_registered:
  assumes "map_of (properties d) propName = Some r"
  shows "\<exists>d2. heap d2 = heap d \<and> calls d2 = calls d \<and> properties d2 = properties d
              \<and> miioDevice d2 = miioDevice d \<and> deviceId d2 = deviceId d
              \<and> setPropertyValue toNum d propName v reply =
                   (if \<not> strict_eq (getValue (heap d ! r)) (adjustedValue toNum (valueRange (heap d ! r)) v)
                    then (fst (setProperty d2 (Some r) (adjustedValue toNum (valueRange (heap d ! r)) v) reply),
                          None)
                    else (logMsg LDebug
                            ''Property ${prop.getName()} seems to have already the value: ${value}. Set not needed! Skipping...'' d2,
                          None))"
proof -
  note own = registry_get_own [OF assms]
  show ?thesis
  proof (cases "valueRange (heap d ! r)")
    case None
    then show ?thesis using own
      by (intro exI [of _ d])
         (simp add: setPropertyValue_def getProperty_def getValueRange_def adjustedValue_def)
  next
    case (Some rng)
    show ?thesis
    proof (cases rng)
      case Nil
      then show ?thesis using own Some
        by (intro exI [of _ d])
           (simp add: setPropertyValue_def getProperty_def getValueRange_def adjustedValue_def)
    next
      case (Cons low tl1)
      show ?thesis
      proof (cases tl1)
        case Nil
        then show ?thesis using own Some Cons
          by (intro exI [of _ d])
             (simp add: setPropertyValue_def getProperty_def getValueRange_def adjustedValue_def)
      next
        case (Cons high tl2)
        note rng = Some \<open>rng = low # tl1\<close> Cons
        consider (above) "js_gt toNum v high" | (below) "\<not> js_gt toNum v high" "js_lt toNum v low"
          | (within) "\<not> js_gt toNum v high" "\<not> js_lt toNum v low"
          by blast
        then show ?thesis
        proof cases
          case above
          then show ?thesis using own rng
            by (intro exI [of _ "logMsg LDebug
                   ''Trying to set ${prop.getName()} property with an out of range value: ${value}. Adjusting value to max: ${high}'' d"])
               (simp add: setPropertyValue_def getProperty_def getValueRange_def adjustedValue_def)
        next
          case below
          then show ?thesis using own rng
            by (intro exI [of _ "logMsg LDebug
                   ''Trying to set ${prop.getName()} property with an out of range value: ${value}. Adjusting value to min: ${low}'' d"])
               (simp add: setPropertyValue_def getProperty_def getValueRange_def adjustedValue_def)
        next
          case within
          then show ?thesis using own rng
            by (intro exI [of _ d])
               (simp add: setPropertyValue_def getProperty_def getValueRange_def adjustedValue_def)
        qed
      qed
    qed
  qed
qed

lemma setPropertyValue_returns:
  assumes "map_of (properties d) propName = Some r"
  shows "snd (setPropertyValue toNum d propName v reply) = None"
  using setPropertyValue_registered [OF assms, of toNum v reply] by auto

lemma setPropertyValue_calls:
  assumes "map_of (properties d) propName = Some r"
  shows "calls (fst (setPropertyValue toNum d propName v reply)) =
           calls d @ (if \<not> strict_eq (getValue (heap d ! r)) (adjustedValue toNum (valueRange (heap d ! r)) v)
                         \<and> isConnected d \<and> isWritable (heap d ! r)
                      then [Call COMMAND_SET
                              [\<lparr>req_did = deviceId d, req_siid = siid (heap d ! r),
                                req_piid = piid (heap d ! r),
                                req_value = Some (adjustedValue toNum (valueRange (heap d ! r)) v)\<rparr>]]
                      else [])"
proof -
  from setPropertyValue_registered [OF assms, of toNum v reply] obtain d2 where
    d2: "heap d2 = heap d" "calls d2 = calls d" "miioDevice d2 = miioDevice d" "deviceId d2 = deviceId d"
    and eq: "setPropertyValue toNum d propName v reply =
               (if \<not> strict_eq (getValue (heap d ! r)) (adjustedValue toNum (valueRange (heap d ! r)) v)
                then (fst (setProperty d2 (Some r) (adjustedValue toNum (valueRange (heap d ! r)) v) reply),
                      None)
                else (logMsg LDebug
                        ''Property ${prop.getName()} seems to have already the value: ${value}. Set not needed! Skipping...'' d2,
                      None))"
    by blast
  have "isConnected d2 = isConnected d" using d2 by (simp add: isConnected_def)
  then show ?thesis by (simp add: eq setProperty_calls d2)
qed

lemma setPropertyValue_heap:
  assumes "map_of (properties d) propName = Some r"
  shows "heap (fst (setPropertyValue toNum d propName v reply)) =
           (case reply of
              Success rs \<Rightarrow>
                if \<not> strict_eq (getValue (heap d ! r)) (adjustedValue toNum (valueRange (heap d ! r)) v)
                   \<and> isConnected d \<and> isWritable (heap d ! r)
                then (heap d)[r := setValue (heap d ! r) (adjustedValue toNum (valueRange (heap d ! r)) v)]
                else heap d
            | Failure err \<Rightarrow> heap d)"
proof -
  from setPropertyValue_registered [OF assms, of toNum v reply] obtain d2 where
    d2: "heap d2 = heap d" "calls d2 = calls d" "miioDevice d2 = miioDevice d" "deviceId d2 = deviceId d"
    and eq: "setPropertyValue toNum d propName v reply =
               (if \<not> strict_eq (getValue (heap d ! r)) (adjustedValue toNum (valueRange (heap d ! r)) v)
                then (fst (setProperty d2 (Some r) (adjustedValue toNum (valueRange (heap d ! r)) v) reply),
                      None)
                else (logMsg LDebug
                        ''Property ${prop.getName()} seems to have already the value: ${value}. Set not needed! Skipping...'' d2,
                      None))"
    by blast
  have "isConnected d2 = isConnected d" using d2 by (simp add: isConnected_def)
  then show ?thesis by (auto simp add: eq setProperty_heap d2 split: reply.split)
qed

lemma setPropertyValue_frame:
  assumes "map_of (properties d) propName = Some r"
  shows "properties (fst (setPropertyValue toNum d propName v reply)) = properties d"
    and "isConnected (fst (setPropertyValue toNum d propName v reply)) = isConnected d"
    and "deviceId (fst (setPropertyValue toNum d propName v reply)) = deviceId d"
proof -
  from setPropertyValue_registered [OF assms, of toNum v reply] obtain d2 where
    d2: "properties d2 = properties d" "miioDevice d2 = miioDevice d" "deviceId d2 = deviceId d"
    and eq: "setPropertyValue toNum d propName v reply =
               (if \<not> strict_eq (getValue (heap d ! r)) (adjustedValue toNum (valueRange (heap d ! r)) v)
                then (fst (setProperty d2 (Some r) (adjustedValue toNum (valueRange (heap d ! r)) v) reply),
                      None)
                else (logMsg LDebug
                        ''Property ${prop.getName()} seems to have already the value: ${value}. Set not needed! Skipping...'' d2,
                      None))"
    by blast
  have c: "isConnected d2 = isConnected d" using d2 by (simp add: isConnected_def)
  show "properties (fst (setPropertyValue toNum d propName v reply)) = properties d"
    by (simp add: eq d2)
  show "isConnected (fst (setPropertyValue toNum d propName v reply)) = isConnected d"
    by (simp add: eq c)
  show "deviceId (fst (setPropertyValue toNum d propName v reply)) = deviceId d"
    by (simp add: eq d2)
qed


section \<open>Registration\<close>

text \<open>
  C8: a call of \<open>addProperty\<close> in which the name, the service id or the property id
  is missing adds no property: it returns \<open>undefined\<close>, leaves the registry and the
  property objects as they were, so \<open>hasProperty\<close> answers for every name what it
  answered before, and it only logs one warning (a skip, not an error).
\<close>

theorem addProperty_missing_skips:
  assumes "nm = None \<or> si = None \<or> pid = None"
  shows "snd (addProperty d nm si pid fmt acc un vr vl) = None
       \<and> properties (fst (addProperty d nm si pid fmt acc un vr vl)) = properties d
       \<and> heap (fst (addProperty d nm si pid fmt acc un vr vl)) = heap d
       \<and> (\<forall>k. hasProperty (fst (addProperty d nm si pid fmt acc un vr vl)) k = hasProperty d k)
       \<and> (\<exists>msg. fst (addProperty d nm si pid fmt acc un vr vl) = logMsg LWarn msg d)"
  using assms by (auto simp add: addProperty_def hasProperty_def)

text \<open>On the example: \<open>mode\<close> declared without a service id is not registered.\<close>

theorem addProperty_missing_skips_witness:
  "snd (addProperty example_unbound (Some ''mode'') None (Some 3) FmtInt ReadWrite None None None) = None
   \<and> \<not> hasProperty
         (fst (addProperty example_unbound (Some ''mode'') None (Some 3) FmtInt ReadWrite None None None))
         ''mode''
   \<and> properties
        (fst (addProperty example_unbound (Some ''mode'') None (Some 3) FmtInt ReadWrite None None None))
      = [(''power'', 0), (''fan_level'', 1)]"
proof -
  have missing: "Some ''mode'' = None \<or> (None :: int option) = None \<or> Some (3 :: int) = None"
    by simp
  have no: "\<not> hasProperty example_unbound ''mode''"
    by (simp add: hasProperty_def registry_get_def Object_prototype_names_def example_unbound_eval)
  from addProperty_missing_skips [OF missing, of example_unbound FmtInt ReadWrite None None None] no
  show ?thesis
    by (simp add: example_unbound_eval)
qed


section \<open>Lookups\<close>

text \<open>
  C10, amended: for a name under which the registry object holds nothing, that is a
  name that is neither a registered key nor inherited by the registry object from
  \<open>Object.prototype\<close> (so that \<open>hasProperty\<close> is false), \<open>getPropertyValue\<close> returns
  \<open>undefined\<close>, \<open>getSafePropertyValue\<close> returns 0, and \<open>getPropertyValueRange\<close> and
  \<open>getPropertyValueList\<close> return the empty list. The last two leave the device as it
  was; the first two write one warning to the logger and change nothing else of the
  device or of its properties.
\<close>

theorem lookup_of_unregistered_name:
  assumes "propName \<notin> fst ` set (properties d)"
      and "propName \<notin> set Object_prototype_names"
      and "registryProto d = None"
  shows "\<not> hasProperty d propName
       \<and> getPropertyValue d propName =
           (logMsg LWarn ''The property ${propName} was not found on this deivce!'' d, Inr JUndefined)
       \<and> getSafePropertyValue d propName =
           (logMsg LWarn ''The property ${propName} was not found on this deivce!'' d, Inr (JNum 0))
       \<and> getPropertyValueRange d propName = (d, Inr [])
       \<and> getPropertyValueList d propName = (d, Inr [])
       \<and> (fst (getPropertyValue d propName))\<lparr>logger := logger d\<rparr> = d
       \<and> (fst (getSafePropertyValue d propName))\<lparr>logger := logger d\<rparr> = d"
proof -
  have "map_of (properties d) propName = None"
    using assms(1) by (simp add: map_of_eq_None_iff)
  then have absent: "registry_get d propName = None"
    using assms(2,3) by (simp add: registry_get_def)
  then show ?thesis
    by (simp add: hasProperty_def getPropertyValue_def getSafePropertyValue_def
          getPropertyValueRange_def getPropertyValueList_def getProperty_def logMsg_def)
qed

text \<open>On the example: the fan has no property \<open>mode\<close>.\<close>

theorem lookup_of_unregistered_name_witness:
  "''mode'' \<notin> fst ` set (properties example_ready)
   \<and> ''mode'' \<notin> set Object_prototype_names
   \<and> registryProto example_ready = None
   \<and> \<not> hasProperty example_ready ''mode''
   \<and> snd (getPropertyValue example_ready ''mode'') = Inr JUndefined
   \<and> snd (getSafePropertyValue example_ready ''mode'') = Inr (JNum 0)
   \<and> getPropertyValueRange example_ready ''mode'' = (example_ready, Inr [])
   \<and> getPropertyValueList example_ready ''mode'' = (example_ready, Inr [])
   \<and> heap (fst (getPropertyValue example_ready ''mode'')) = heap example_ready"
proof -
  have own: "''mode'' \<notin> fst ` set (properties example_ready)"
    by (simp add: example_ready_eval)
  have inh: "''mode'' \<notin> set Object_prototype_names"
    by (simp add: Object_prototype_names_def)
  have proto: "registryProto example_ready = None"
    by (simp add: example_ready_eval)
  from own inh proto lookup_of_unregistered_name [OF own inh proto]
  show ?thesis by simp
qed

text \<open>
  C10 as stated fails: \<open>toString\<close> is not in the registry of the example fan, but the
  registry object, a plain object, inherits it from \<open>Object.prototype\<close>. So
  \<open>hasProperty\<close> is true of it, \<open>getProperty\<close> returns the inherited function without a
  warning, and each of the four getters throws a TypeError on calling a method of a
  property on it.
\<close>

theorem lookup_of_inherited_name_counterexample:
  "''toString'' \<notin> fst ` set (properties example_ready)
   \<and> hasProperty example_ready ''toString''
   \<and> getPropertyValue example_ready ''toString'' =
       (example_ready, Inl (TypeError ''prop.getValue is not a function''))
   \<and> getSafePropertyValue example_ready ''toString'' =
       (example_ready, Inl (TypeError ''prop.getSafeValue is not a function''))
   \<and> getPropertyValueRange example_ready ''toString'' =
       (example_ready, Inl (TypeError ''prop.hasValueRange is not a function''))
   \<and> getPropertyValueList example_ready ''toString'' =
       (example_ready, Inl (TypeError ''prop.hasValueList is not a function''))"
proof -
  have "registry_get example_ready ''toString'' = Some InheritedMember"
    by (simp add: registry_get_def Object_prototype_names_def example_ready_eval)
  then show ?thesis
    by (simp add: hasProperty_def getPropertyValue_def getSafePropertyValue_def
          getPropertyValueRange_def getPropertyValueList_def getProperty_def example_ready_eval)
qed


section \<open>Polling\<close>

text \<open>
  C7: on a device that is not connected, \<open>pollProperties\<close> returns a promise rejected
  with the error "Device not connected" and does nothing else (the device, its trace of
  transport calls included, is unchanged); on a connected device it is
  \<open>requestAllProperties\<close>. A device constructed without a transport handle is not
  connected.
\<close>

theorem pollProperties_guard:
  "(\<not> isConnected d \<longrightarrow> pollProperties d reply = (d, Rejected (Error ''Device not connected'')))
   \<and> (isConnected d \<longrightarrow> pollProperties d reply = requestAllProperties d reply)
   \<and> \<not> isConnected (newMiotDevice None mdl dId reply)"
  by (simp add: pollProperties_def newMiotDevice_def isConnected_def initDevice_def
        initDeviceProperties_def initDeviceCapabilities_def logMsg_def Let_def)

text \<open>On the examples: the fan before and after its first attach.\<close>

theorem pollProperties_guard_witness:
  "\<not> isConnected example_unbound
   \<and> pollProperties example_unbound (Success []) =
       (example_unbound, Rejected (Error ''Device not connected''))
   \<and> calls (fst (pollProperties example_unbound (Success []))) = []
   \<and> isConnected example_ready
   \<and> pollProperties example_ready (Failure (Error ''timeout'')) =
       requestAllProperties example_ready (Failure (Error ''timeout''))"
  using pollProperties_guard [of example_unbound "Success []" None None]
    pollProperties_guard [of example_ready "Failure (Error ''timeout'')" None None]
  by (simp add: example_connected example_unbound_eval)

text \<open>
  C6: what \<open>requestAllProperties\<close> does on a device that is not connected: no
  transport call and no change of a property, but the promise it returns is resolved
  with \<open>undefined\<close>, not rejected: \<open>createErrorPromise\<close> catches its own rejection to
  log it.
\<close>

theorem requestAllProperties_disconnected:
  assumes "\<not> isConnected d"
  shows "requestAllProperties d reply =
           (logMsg LDebug ''Cannot poll all properties! Device not connected!'' d, Resolved RUndefined)"
  using assms by (simp add: requestAllProperties_def createErrorPromise_def)

text \<open>On the example: the fan before its first attach.\<close>

theorem requestAllProperties_disconnected_witness:
  "\<not> isConnected example_unbound
   \<and> snd (requestAllProperties example_unbound (Success [])) = Resolved RUndefined
   \<and> calls (fst (requestAllProperties example_unbound (Success []))) = []
   \<and> heap (fst (requestAllProperties example_unbound (Success []))) = heap example_unbound"
proof -
  have off: "\<not> isConnected example_unbound" by (rule example_connected)
  from off requestAllProperties_disconnected [OF off, of "Success []"]
  show ?thesis by (simp add: example_unbound_eval)
qed


section \<open>Single-property writes\<close>

text \<open>
  C4: on a connected device, a write of \<open>v\<close> to a registered (and writable) property
  whose transport call succeeds leaves the property's cached value equal to \<open>v\<close>, so
  that \<open>getPropertyValue\<close> returns \<open>v\<close> at once, changes no other property, and emits
  exactly one property-updated notification, carrying that property. One
  \<open>set_properties\<close> call was made, and the promise is resolved.
\<close>

theorem setProperty_success:
  assumes "isConnected d" and "map_of (properties d) propName = Some r"
      and "r < length (heap d)" and "isWritable (heap d ! r)"
  shows "snd (setProperty d (Some r) v (Success rs)) = Resolved RUndefined
       \<and> heap (fst (setProperty d (Some r) v (Success rs))) = (heap d)[r := setValue (heap d ! r) v]
       \<and> snd (getPropertyValue (fst (setProperty d (Some r) v (Success rs))) propName) = Inr v
       \<and> emitted (fst (setProperty d (Some r) v (Success rs))) = emitted d @ [(DEVICE_PROPERTY_UPDATED, r)]
       \<and> calls (fst (setProperty d (Some r) v (Success rs))) =
           calls d @ [Call COMMAND_SET
             [\<lparr>req_did = deviceId d, req_siid = siid (heap d ! r), req_piid = piid (heap d ! r),
               req_value = Some v\<rparr>]]"
  using assms
  by (simp add: setProperty_def getWriteProtocolObjForDid_def logMsg_def Let_def
        getPropertyValue_def getProperty_def registry_get_def setValue_def getValue_def)

text \<open>On the example: switching the fan off.\<close>

theorem setProperty_success_witness:
  "isConnected example_ready
   \<and> map_of (properties example_ready) ''power'' = Some 0
   \<and> isWritable (heap example_ready ! 0)
   \<and> snd (getPropertyValue example_ready ''power'') = Inr (JBool True)
   \<and> snd (getPropertyValue (fst (setProperty example_ready (Some 0) (JBool False) (Success []))) ''power'')
       = Inr (JBool False)
   \<and> emitted (fst (setProperty example_ready (Some 0) (JBool False) (Success [])))
       = [(DEVICE_PROPERTY_UPDATED, 0)]"
proof -
  have on: "isConnected example_ready" by (rule example_connected)
  have reg: "map_of (properties example_ready) ''power'' = Some 0"
    by (simp add: example_ready_eval)
  have len: "0 < length (heap example_ready)" by (simp add: example_ready_eval)
  have wr: "isWritable (heap example_ready ! 0)" by (simp add: example_ready_eval isWritable_def)
  from on reg wr setProperty_success [OF on reg len wr, of "JBool False" "[]"]
  show ?thesis
    by (simp add: example_ready_eval getPropertyValue_def getProperty_def registry_get_def
          getValue_def setValue_def)
qed

text \<open>
  C5: on a connected device, a write to a (writable) property whose transport call
  fails changes no property's cached value, emits no notification, and returns a
  promise that is resolved, not rejected. The one \<open>set_properties\<close> call was made.
\<close>

theorem setProperty_failure:
  assumes "isConnected d" and "isWritable (heap d ! r)"
  shows "snd (setProperty d (Some r) v (Failure err)) = Resolved RUndefined
       \<and> heap (fst (setProperty d (Some r) v (Failure err))) = heap d
       \<and> properties (fst (setProperty d (Some r) v (Failure err))) = properties d
       \<and> emitted (fst (setProperty d (Some r) v (Failure err))) = emitted d
       \<and> calls (fst (setProperty d (Some r) v (Failure err))) =
           calls d @ [Call COMMAND_SET
             [\<lparr>req_did = deviceId d, req_siid = siid (heap d ! r), req_piid = piid (heap d ! r),
               req_value = Some v\<rparr>]]"
  using assms
  by (simp add: setProperty_def getWriteProtocolObjForDid_def logMsg_def Let_def)

text \<open>On the example: a write of fan level 3 that times out.\<close>

theorem setProperty_failure_witness:
  "isConnected example_ready
   \<and> isWritable (heap example_ready ! 1)
   \<and> snd (setProperty example_ready (Some 1) (JNum 3) (Failure (Error ''timeout''))) = Resolved RUndefined
   \<and> getValue (heap (fst (setProperty example_ready (Some 1) (JNum 3) (Failure (Error ''timeout'')))) ! 1)
       = JNum 2
   \<and> emitted (fst (setProperty example_ready (Some 1) (JNum 3) (Failure (Error ''timeout'')))) = []"
proof -
  have on: "isConnected example_ready" by (rule example_connected)
  have wr: "isWritable (heap example_ready ! 1)" by (simp add: example_ready_eval isWritable_def)
  from on wr setProperty_failure [OF on wr, of "JNum 3" "Error ''timeout''"]
  show ?thesis by (simp add: example_ready_eval getValue_def)
qed


section \<open>Setting a property by name\<close>

text \<open>
  C2: for a registered property with a range \<open>[lo, hi]\<close> or \<open>[lo, hi, step]\<close>,
  \<open>lo \<le> hi\<close>, \<open>setPropertyValue\<close> with a number above \<open>hi\<close> goes on with \<open>hi\<close>, and
  with a number below \<open>lo\<close> goes on with \<open>lo\<close>: the only transport call it can make
  is the write of that bound (made when the bound is not the cached value, the device
  is connected and the property writable), and the cached value afterwards is that
  bound when the write succeeded and the old value otherwise. The number passed in is
  neither sent nor cached.
\<close>

theorem setPropertyValue_clamps_to_range:
  assumes reg: "map_of (properties d) propName = Some r" and len: "r < length (heap d)"
      and rng: "valueRange (heap d ! r) = Some (lo # hi # rest)" and wf: "lo \<le> hi"
  shows "(hi < x \<longrightarrow>
            calls (fst (setPropertyValue toNum d propName (JNum x) reply)) =
              calls d @ (if getValue (heap d ! r) \<noteq> JNum hi \<and> isConnected d \<and> isWritable (heap d ! r)
                         then [Call COMMAND_SET
                                 [\<lparr>req_did = deviceId d, req_siid = siid (heap d ! r),
                                   req_piid = piid (heap d ! r), req_value = Some (JNum hi)\<rparr>]]
                         else [])
          \<and> getValue (heap (fst (setPropertyValue toNum d propName (JNum x) reply)) ! r) =
              (case reply of
                 Success rs \<Rightarrow> if isConnected d \<and> isWritable (heap d ! r) then JNum hi
                               else getValue (heap d ! r)
               | Failure err \<Rightarrow> getValue (heap d ! r)))
       \<and> (x < lo \<longrightarrow>
            calls (fst (setPropertyValue toNum d propName (JNum x) reply)) =
              calls d @ (if getValue (heap d ! r) \<noteq> JNum lo \<and> isConnected d \<and> isWritable (heap d ! r)
                         then [Call COMMAND_SET
                                 [\<lparr>req_did = deviceId d, req_siid = siid (heap d ! r),
                                   req_piid = piid (heap d ! r), req_value = Some (JNum lo)\<rparr>]]
                         else [])
          \<and> getValue (heap (fst (setPropertyValue toNum d propName (JNum x) reply)) ! r) =
              (case reply of
                 Success rs \<Rightarrow> if isConnected d \<and> isWritable (heap d ! r) then JNum lo
                               else getValue (heap d ! r)
               | Failure err \<Rightarrow> getValue (heap d ! r)))
       \<and> snd (setPropertyValue toNum d propName (JNum x) reply) = None"
proof (intro conjI impI)
  assume above: "hi < x"
  then have adj: "adjustedValue toNum (valueRange (heap d ! r)) (JNum x) = JNum hi"
    by (simp add: rng adjustedValue_def js_gt_def)
  show "calls (fst (setPropertyValue toNum d propName (JNum x) reply)) =
          calls d @ (if getValue (heap d ! r) \<noteq> JNum hi \<and> isConnected d \<and> isWritable (heap d ! r)
                     then [Call COMMAND_SET
                             [\<lparr>req_did = deviceId d, req_siid = siid (heap d ! r),
                               req_piid = piid (heap d ! r), req_value = Some (JNum hi)\<rparr>]]
                     else [])"
    by (simp add: setPropertyValue_calls [OF reg] adj strict_eq_def)
  show "getValue (heap (fst (setPropertyValue toNum d propName (JNum x) reply)) ! r) =
          (case reply of
             Success rs \<Rightarrow> if isConnected d \<and> isWritable (heap d ! r) then JNum hi
                           else getValue (heap d ! r)
           | Failure err \<Rightarrow> getValue (heap d ! r))"
    using len
    by (auto simp add: setPropertyValue_heap [OF reg] adj strict_eq_def getValue_def setValue_def
          split: reply.split)
next
  assume below: "x < lo"
  then have adj: "adjustedValue toNum (valueRange (heap d ! r)) (JNum x) = JNum lo"
    using wf by (simp add: rng adjustedValue_def js_gt_def js_lt_def)
  show "calls (fst (setPropertyValue toNum d propName (JNum x) reply)) =
          calls d @ (if getValue (heap d ! r) \<noteq> JNum lo \<and> isConnected d \<and> isWritable (heap d ! r)
                     then [Call COMMAND_SET
                             [\<lparr>req_did = deviceId d, req_siid = siid (heap d ! r),
                               req_piid = piid (heap d ! r), req_value = Some (JNum lo)\<rparr>]]
                     else [])"
    by (simp add: setPropertyValue_calls [OF reg] adj strict_eq_def)
  show "getValue (heap (fst (setPropertyValue toNum d propName (JNum x) reply)) ! r) =
          (case reply of
             Success rs \<Rightarrow> if isConnected d \<and> isWritable (heap d ! r) then JNum lo
                           else getValue (heap d ! r)
           | Failure err \<Rightarrow> getValue (heap d ! r))"
    using len
    by (auto simp add: setPropertyValue_heap [OF reg] adj strict_eq_def getValue_def setValue_def
          split: reply.split)
next
  show "snd (setPropertyValue toNum d propName (JNum x) reply) = None"
    by (rule setPropertyValue_returns [OF reg])
qed

text \<open>On the example: fan level 5 is written as 3, and fan level 0 as 1 (the range is 1 to 3).\<close>

theorem setPropertyValue_clamps_to_range_witness:
  "map_of (properties example_ready) ''fan_level'' = Some 1
   \<and> valueRange (heap example_ready ! 1) = Some [1, 3]
   \<and> calls (fst (setPropertyValue (\<lambda>s. NaN) example_ready ''fan_level'' (JNum 5) (Success []))) =
       calls example_ready @
         [Call COMMAND_SET
            [\<lparr>req_did = Some ''123'', req_siid = 2, req_piid = 2, req_value = Some (JNum 3)\<rparr>]]
   \<and> getValue (heap (fst (setPropertyValue (\<lambda>s. NaN) example_ready ''fan_level'' (JNum 5) (Success []))) ! 1)
       = JNum 3
   \<and> calls (fst (setPropertyValue (\<lambda>s. NaN) example_ready ''fan_level'' (JNum 0) (Success []))) =
       calls example_ready @
         [Call COMMAND_SET
            [\<lparr>req_did = Some ''123'', req_siid = 2, req_piid = 2, req_value = Some (JNum 1)\<rparr>]]
   \<and> getValue (heap (fst (setPropertyValue (\<lambda>s. NaN) example_ready ''fan_level'' (JNum 0) (Success []))) ! 1)
       = JNum 1"
proof -
  have reg: "map_of (properties example_ready) ''fan_level'' = Some 1"
    by (simp add: example_ready_eval)
  have len: "1 < length (heap example_ready)" by (simp add: example_ready_eval)
  have rng: "valueRange (heap example_ready ! 1) = Some (1 # 3 # [])"
    by (simp add: example_ready_eval)
  have wf: "(1 :: real) \<le> 3" by simp
  from reg rng
    setPropertyValue_clamps_to_range [OF reg len rng wf, of 5 "\<lambda>s. NaN" "Success []"]
    setPropertyValue_clamps_to_range [OF reg len rng wf, of 0 "\<lambda>s. NaN" "Success []"]
  show ?thesis
    by (simp add: example_ready_eval example_connected getValue_def isWritable_def)
qed

text \<open>
  C3, amended: for a registered property, when the value to set, as adjusted to the
  range (a number clamped into a range \<open>[lo, hi]\<close>, \<open>lo \<le> hi\<close>; any value as it is
  when the property has no range), is strictly equal to the cached value, which NaN
  never is, \<open>setPropertyValue\<close> makes no transport call; and two calls of
  \<open>setPropertyValue\<close> with the same value other than NaN, the second after the first has
  settled, make at most one transport call when the write of the first, if it made
  one, succeeded.
\<close>

theorem setPropertyValue_skips_cached_value:
  assumes reg: "map_of (properties d) propName = Some r" and len: "r < length (heap d)"
  shows "(strict_eq (getValue (heap d ! r)) (adjustedValue toNum (valueRange (heap d ! r)) v)
          \<longrightarrow> calls (fst (setPropertyValue toNum d propName v reply)) = calls d)
       \<and> (valueRange (heap d ! r) = Some (lo # hi # rest) \<and> lo \<le> hi
            \<and> getValue (heap d ! r) = JNum (max lo (min hi x))
          \<longrightarrow> calls (fst (setPropertyValue toNum d propName (JNum x) reply)) = calls d)
       \<and> ((valueRange (heap d ! r) = None \<or> valueRange (heap d ! r) = Some []
             \<or> valueRange (heap d ! r) = Some [a])
            \<and> getValue (heap d ! r) = v \<and> v \<noteq> JNaN
          \<longrightarrow> calls (fst (setPropertyValue toNum d propName v reply)) = calls d)
       \<and> (v \<noteq> JNaN
          \<longrightarrow> length (calls (fst (setPropertyValue toNum
                                     (fst (setPropertyValue toNum d propName v (Success rs)))
                                     propName v reply)))
                \<le> Suc (length (calls d)))"
proof (intro conjI impI)
  assume "strict_eq (getValue (heap d ! r)) (adjustedValue toNum (valueRange (heap d ! r)) v)"
  then show "calls (fst (setPropertyValue toNum d propName v reply)) = calls d"
    by (simp add: setPropertyValue_calls [OF reg])
next
  assume "valueRange (heap d ! r) = Some (lo # hi # rest) \<and> lo \<le> hi
            \<and> getValue (heap d ! r) = JNum (max lo (min hi x))"
  then show "calls (fst (setPropertyValue toNum d propName (JNum x) reply)) = calls d"
    by (simp add: setPropertyValue_calls [OF reg] adjustedValue_clamp strict_eq_def)
next
  assume "(valueRange (heap d ! r) = None \<or> valueRange (heap d ! r) = Some []
             \<or> valueRange (heap d ! r) = Some [a])
            \<and> getValue (heap d ! r) = v \<and> v \<noteq> JNaN"
  then show "calls (fst (setPropertyValue toNum d propName v reply)) = calls d"
    by (auto simp add: setPropertyValue_calls [OF reg] adjustedValue_no_range strict_eq_def)
next
  assume nan: "v \<noteq> JNaN"
  let ?d1 = "fst (setPropertyValue toNum d propName v (Success rs))"
  let ?v2 = "adjustedValue toNum (valueRange (heap d ! r)) v"
  have v2: "?v2 \<noteq> JNaN" using nan by (rule adjustedValue_NaN)
  have reg1: "map_of (properties ?d1) propName = Some r"
    by (simp add: setPropertyValue_frame [OF reg] reg)
  have conn1: "isConnected ?d1 = isConnected d"
    by (simp add: setPropertyValue_frame [OF reg])
  have calls1: "calls ?d1 =
      calls d @ (if \<not> strict_eq (getValue (heap d ! r)) ?v2 \<and> isConnected d \<and> isWritable (heap d ! r)
                 then [Call COMMAND_SET
                         [\<lparr>req_did = deviceId d, req_siid = siid (heap d ! r),
                           req_piid = piid (heap d ! r), req_value = Some ?v2\<rparr>]]
                 else [])"
    by (rule setPropertyValue_calls [OF reg])
  have heap1: "heap ?d1 =
      (if \<not> strict_eq (getValue (heap d ! r)) ?v2 \<and> isConnected d \<and> isWritable (heap d ! r)
       then (heap d)[r := setValue (heap d ! r) ?v2] else heap d)"
    by (simp add: setPropertyValue_heap [OF reg])
  show "length (calls (fst (setPropertyValue toNum ?d1 propName v reply))) \<le> Suc (length (calls d))"
  proof (cases "\<not> strict_eq (getValue (heap d ! r)) ?v2 \<and> isConnected d \<and> isWritable (heap d ! r)")
    case True
    then have h: "heap ?d1 = (heap d)[r := setValue (heap d ! r) ?v2]"
      and c: "length (calls ?d1) = Suc (length (calls d))"
      using heap1 calls1 by simp_all
    have "heap ?d1 ! r = setValue (heap d ! r) ?v2" using h len by simp
    then have "valueRange (heap ?d1 ! r) = valueRange (heap d ! r)" "getValue (heap ?d1 ! r) = ?v2"
      by (simp_all add: setValue_def getValue_def)
    then have "calls (fst (setPropertyValue toNum ?d1 propName v reply)) = calls ?d1"
      using v2 by (simp add: setPropertyValue_calls [OF reg1] strict_eq_def)
    then show ?thesis using c by simp
  next
    case False
    then have h: "heap ?d1 = heap d" and c: "calls ?d1 = calls d"
      using heap1 calls1 by auto
    have "calls (fst (setPropertyValue toNum ?d1 propName v reply)) = calls ?d1"
      using False by (simp add: setPropertyValue_calls [OF reg1] h conn1)
    then show ?thesis using c by simp
  qed
qed

text \<open>
  On the example: fan level 2 is the cached value, \<open>true\<close> is the cached value of
  \<open>power\<close>, and setting fan level 5 twice writes 3 once.
\<close>

theorem setPropertyValue_skips_cached_value_witness:
  "map_of (properties example_ready) ''fan_level'' = Some 1
   \<and> map_of (properties example_ready) ''power'' = Some 0
   \<and> calls (fst (setPropertyValue (\<lambda>s. NaN) example_ready ''fan_level'' (JNum 2) (Success [])))
       = calls example_ready
   \<and> calls (fst (setPropertyValue (\<lambda>s. NaN) example_ready ''power'' (JBool True) (Success [])))
       = calls example_ready
   \<and> length (calls (fst (setPropertyValue (\<lambda>s. NaN)
                           (fst (setPropertyValue (\<lambda>s. NaN) example_ready ''fan_level'' (JNum 5) (Success [])))
                           ''fan_level'' (JNum 5) (Success []))))
       \<le> Suc (length (calls example_ready))"
proof -
  have reg1: "map_of (properties example_ready) ''fan_level'' = Some 1"
    and reg0: "map_of (properties example_ready) ''power'' = Some 0"
    by (simp_all add: example_ready_eval)
  have len1: "1 < length (heap example_ready)" and len0: "0 < length (heap example_ready)"
    by (simp_all add: example_ready_eval)
  from reg1 reg0
    setPropertyValue_skips_cached_value [OF reg1 len1, where lo = 1 and hi = 3 and rest = "[]"
      and x = 2 and reply = "Success []" and v = "JNum 5" and rs = "[]" and toNum = "\<lambda>s. NaN"]
    setPropertyValue_skips_cached_value [OF reg0 len0, where v = "JBool True" and reply = "Success []"
      and toNum = "\<lambda>s. NaN"]
  show ?thesis
    by (simp add: example_ready_eval getValue_def)
qed

text \<open>
  C3 as stated fails, in two ways. When the write of the first call fails, the cached
  value stays as it was, and a second call with the same value writes again: on the
  example, fan level 3 set twice, both writes timing out, makes two transport calls.
  And NaN is never strictly equal to the cached value, NaN included: fan level NaN set
  twice, both writes succeeding, makes two transport calls as well.
\<close>

theorem setPropertyValue_twice_counterexample:
  "calls (fst (setPropertyValue (\<lambda>s. NaN)
            (fst (setPropertyValue (\<lambda>s. NaN) example_ready ''fan_level'' (JNum 3) (Failure (Error ''timeout''))))
            ''fan_level'' (JNum 3) (Failure (Error ''timeout'')))) =
     calls example_ready @
       [Call COMMAND_SET
          [\<lparr>req_did = Some ''123'', req_siid = 2, req_piid = 2, req_value = Some (JNum 3)\<rparr>],
        Call COMMAND_SET
          [\<lparr>req_did = Some ''123'', req_siid = 2, req_piid = 2, req_value = Some (JNum 3)\<rparr>]]
   \<and> \<not> length (calls (fst (setPropertyValue (\<lambda>s. NaN)
            (fst (setPropertyValue (\<lambda>s. NaN) example_ready ''fan_level'' (JNum 3) (Failure (Error ''timeout''))))
            ''fan_level'' (JNum 3) (Failure (Error ''timeout'')))))
         \<le> Suc (length (calls example_ready))
   \<and> calls (fst (setPropertyValue (\<lambda>s. NaN)
            (fst (setPropertyValue (\<lambda>s. NaN) example_ready ''fan_level'' JNaN (Success [])))
            ''fan_level'' JNaN (Success []))) =
     calls example_ready @
       [Call COMMAND_SET
          [\<lparr>req_did = Some ''123'', req_siid = 2, req_piid = 2, req_value = Some JNaN\<rparr>],
        Call COMMAND_SET
          [\<lparr>req_did = Some ''123'', req_siid = 2, req_piid = 2, req_value = Some JNaN\<rparr>]]"
proof -
  let ?d1 = "fst (setPropertyValue (\<lambda>s. NaN) example_ready ''fan_level'' (JNum 3) (Failure (Error ''timeout'')))"
  let ?n1 = "fst (setPropertyValue (\<lambda>s. NaN) example_ready ''fan_level'' JNaN (Success []))"
  have reg: "map_of (properties example_ready) ''fan_level'' = Some 1"
    by (simp add: example_ready_eval)
  have reg1: "map_of (properties ?d1) ''fan_level'' = Some 1"
    by (simp add: setPropertyValue_frame [OF reg] reg)
  have heap1: "heap ?d1 = heap example_ready"
    by (simp add: setPropertyValue_heap [OF reg])
  have conn1: "isConnected ?d1"
    by (simp add: setPropertyValue_frame [OF reg] example_connected)
  have did1: "deviceId ?d1 = Some ''123''"
    by (simp add: setPropertyValue_frame [OF reg] example_ready_eval)
  have calls1: "calls ?d1 = calls example_ready @
       [Call COMMAND_SET
          [\<lparr>req_did = Some ''123'', req_siid = 2, req_piid = 2, req_value = Some (JNum 3)\<rparr>]]"
    by (simp add: setPropertyValue_calls [OF reg] example_ready_eval example_connected
          adjustedValue_def js_gt_def js_lt_def strict_eq_def getValue_def isWritable_def)
  have fail: "calls (fst (setPropertyValue (\<lambda>s. NaN) ?d1 ''fan_level'' (JNum 3) (Failure (Error ''timeout'')))) =
     calls example_ready @
       [Call COMMAND_SET
          [\<lparr>req_did = Some ''123'', req_siid = 2, req_piid = 2, req_value = Some (JNum 3)\<rparr>],
        Call COMMAND_SET
          [\<lparr>req_did = Some ''123'', req_siid = 2, req_piid = 2, req_value = Some (JNum 3)\<rparr>]]"
    by (simp add: setPropertyValue_calls [OF reg1] heap1 conn1 did1 calls1 example_ready_eval
          adjustedValue_def js_gt_def js_lt_def strict_eq_def getValue_def isWritable_def)
  have nreg1: "map_of (properties ?n1) ''fan_level'' = Some 1"
    by (simp add: setPropertyValue_frame [OF reg] reg)
  have nheap1: "heap ?n1 = (heap example_ready)[1 := setValue (heap example_ready ! 1) JNaN]"
    by (simp add: setPropertyValue_heap [OF reg] example_ready_eval example_connected
          adjustedValue_def js_gt_def js_lt_def strict_eq_def getValue_def isWritable_def)
  have nconn1: "isConnected ?n1"
    by (simp add: setPropertyValue_frame [OF reg] example_connected)
  have ndid1: "deviceId ?n1 = Some ''123''"
    by (simp add: setPropertyValue_frame [OF reg] example_ready_eval)
  have ncalls1: "calls ?n1 = calls example_ready @
       [Call COMMAND_SET
          [\<lparr>req_did = Some ''123'', req_siid = 2, req_piid = 2, req_value = Some JNaN\<rparr>]]"
    by (simp add: setPropertyValue_calls [OF reg] example_ready_eval example_connected
          adjustedValue_def js_gt_def js_lt_def strict_eq_def getValue_def isWritable_def)
  have nan: "calls (fst (setPropertyValue (\<lambda>s. NaN) ?n1 ''fan_level'' JNaN (Success []))) =
     calls example_ready @
       [Call COMMAND_SET
          [\<lparr>req_did = Some ''123'', req_siid = 2, req_piid = 2, req_value = Some JNaN\<rparr>],
        Call COMMAND_SET
          [\<lparr>req_did = Some ''123'', req_siid = 2, req_piid = 2, req_value = Some JNaN\<rparr>]]"
    by (simp add: setPropertyValue_calls [OF nreg1] nheap1 nconn1 ndid1 ncalls1 example_ready_eval
          adjustedValue_def js_gt_def js_lt_def strict_eq_def getValue_def setValue_def isWritable_def)
  from fail nan show ?thesis by simp
qed


section \<open>The batched read\<close>

text \<open>
  The loop over the response array, for as many slots as there are keys: slot \<open>j\<close> is
  applied to the property of key \<open>j\<close> when its code is 0, and only logged otherwise;
  the properties of the other slots are not touched by it.
\<close>

lemma updatePropertyValueFromDevice_registered:
  assumes "map_of (properties d) k = Some r"
  shows "updatePropertyValueFromDevice d obj k s =
           (if slot_code s = Some 0
            then (d\<lparr>heap := (heap d)[r := setValue (heap d ! r) (slot_value s)]\<rparr>,
                  Inr (AList.update k (slot_value s) obj))
            else (logMsg LDebug
                    ''Error while parsing response from device for property ${propName}. Response object: ${JSON.stringify(returnObj)}'' d,
                  Inr obj))"
  using assms by (simp add: updatePropertyValueFromDevice_def getProperty_def registry_get_own)

lemma requestAllProperties_loop_inv:
  assumes "length res \<le> length keys" and "length refs = length keys" and "distinct refs"
      and "\<forall>j < length keys. map_of (properties d) (keys ! j) = Some (refs ! j)"
      and "\<forall>j < length keys. refs ! j < length (heap d)"
  shows "\<exists>d'. requestAllProperties_loop d obj keys res i =
                 (d', Resolved (RObj (fold (\<lambda>j ob. if slot_code (res ! j) = Some 0
                                                   then AList.update (keys ! j) (slot_value (res ! j)) ob
                                                   else ob) [i..<length res] obj)))
            \<and> properties d' = properties d \<and> calls d' = calls d \<and> emitted d' = emitted d
            \<and> miioDevice d' = miioDevice d \<and> deviceId d' = deviceId d
            \<and> length (heap d') = length (heap d)
            \<and> (\<forall>j. i \<le> j \<and> j < length res \<longrightarrow>
                  heap d' ! (refs ! j) =
                    (if slot_code (res ! j) = Some 0
                     then setValue (heap d ! (refs ! j)) (slot_value (res ! j))
                     else heap d ! (refs ! j)))
            \<and> (\<forall>r. r \<notin> set (drop i (take (length res) refs)) \<longrightarrow> heap d' ! r = heap d ! r)"
  using assms
proof (induction "length res - i" arbitrary: d obj i)
  case 0
  then have "\<not> i < length res" by simp
  then show ?case
    by (intro exI [of _ d]) (auto simp add: requestAllProperties_loop.simps)
next
  case (Suc n)
  then have i: "i < length res" by simp
  then have ik: "i < length keys" using Suc.prems by simp
  have reg: "map_of (properties d) (keys ! i) = Some (refs ! i)" using Suc.prems ik by simp
  define d1 where "d1 = fst (updatePropertyValueFromDevice d obj (keys ! i) (res ! i))"
  define o1 where "o1 = (if slot_code (res ! i) = Some 0
             then AList.update (keys ! i) (slot_value (res ! i)) obj else obj)"
  have step: "updatePropertyValueFromDevice d obj (keys ! i) (res ! i) = (d1, Inr o1)"
    by (simp add: d1_def o1_def updatePropertyValueFromDevice_registered [OF reg])
  have d1: "properties d1 = properties d" "calls d1 = calls d" "emitted d1 = emitted d"
    "miioDevice d1 = miioDevice d" "deviceId d1 = deviceId d"
    "length (heap d1) = length (heap d)"
    by (simp_all add: d1_def updatePropertyValueFromDevice_registered [OF reg] logMsg_def)
  have h1: "heap d1 = (if slot_code (res ! i) = Some 0
                        then (heap d)[refs ! i := setValue (heap d ! (refs ! i)) (slot_value (res ! i))]
                        else heap d)"
    by (simp add: d1_def updatePropertyValueFromDevice_registered [OF reg] logMsg_def)
  have unfold: "requestAllProperties_loop d obj keys res i =
                  requestAllProperties_loop d1 o1 keys res (Suc i)"
    using i ik step by (subst requestAllProperties_loop.simps) simp
  have n: "n = length res - Suc i" using Suc.hyps by simp
  have pre: "\<forall>j < length keys. map_of (properties d1) (keys ! j) = Some (refs ! j)"
    using Suc.prems d1 by simp
  have pre2: "\<forall>j < length keys. refs ! j < length (heap d1)"
    using Suc.prems d1 by simp
  from Suc.hyps(1) [OF n Suc.prems(1) Suc.prems(2) Suc.prems(3) pre pre2, of o1]
  obtain d' where
    res: "requestAllProperties_loop d1 o1 keys res (Suc i) =
            (d', Resolved (RObj (fold (\<lambda>j ob. if slot_code (res ! j) = Some 0
                                              then AList.update (keys ! j) (slot_value (res ! j)) ob
                                              else ob) [Suc i..<length res] o1)))"
    and fr: "properties d' = properties d1" "calls d' = calls d1" "emitted d' = emitted d1"
      "miioDevice d' = miioDevice d1" "deviceId d' = deviceId d1"
      "length (heap d') = length (heap d1)"
    and upd: "\<forall>j. Suc i \<le> j \<and> j < length res \<longrightarrow>
                  heap d' ! (refs ! j) =
                    (if slot_code (res ! j) = Some 0
                     then setValue (heap d1 ! (refs ! j)) (slot_value (res ! j))
                     else heap d1 ! (refs ! j))"
    and oth: "\<forall>r. r \<notin> set (drop (Suc i) (take (length res) refs)) \<longrightarrow> heap d' ! r = heap d1 ! r"
    by blast
  have range: "[i..<length res] = i # [Suc i..<length res]"
    using i by (simp add: upt_conv_Cons)
  have ri: "refs ! i \<notin> set (drop (Suc i) (take (length res) refs))"
  proof
    assume "refs ! i \<in> set (drop (Suc i) (take (length res) refs))"
    then obtain m where m: "m < length (drop (Suc i) (take (length res) refs))"
      and eq: "drop (Suc i) (take (length res) refs) ! m = refs ! i"
      by (auto simp add: in_set_conv_nth)
    from m have "Suc i + m < length res" "Suc i + m < length refs" using Suc.prems by simp_all
    then have "refs ! (Suc i + m) = refs ! i" using eq by simp
    then show False
      using \<open>distinct refs\<close> \<open>Suc i + m < length refs\<close> ik Suc.prems(2)
      by (simp add: nth_eq_iff_index_eq)
  qed
  have dropi: "drop i (take (length res) refs) = refs ! i # drop (Suc i) (take (length res) refs)"
    using i Suc.prems by (simp add: Cons_nth_drop_Suc [symmetric])
  show ?case
  proof (intro exI [of _ d'] conjI allI impI)
    show "requestAllProperties_loop d obj keys res i =
            (d', Resolved (RObj (fold (\<lambda>j ob. if slot_code (res ! j) = Some 0
                                              then AList.update (keys ! j) (slot_value (res ! j)) ob
                                              else ob) [i..<length res] obj)))"
      using res by (auto simp add: unfold range o1_def)
    show "properties d' = properties d" "calls d' = calls d" "emitted d' = emitted d"
      "miioDevice d' = miioDevice d" "deviceId d' = deviceId d"
      "length (heap d') = length (heap d)"
      using fr d1 by simp_all
  next
    fix j assume j: "i \<le> j \<and> j < length res"
    show "heap d' ! (refs ! j) =
            (if slot_code (res ! j) = Some 0
             then setValue (heap d ! (refs ! j)) (slot_value (res ! j))
             else heap d ! (refs ! j))"
    proof (cases "j = i")
      case True
      have "heap d' ! (refs ! i) = heap d1 ! (refs ! i)" using oth ri by simp
      moreover have "refs ! i < length (heap d)" using Suc.prems ik by simp
      ultimately show ?thesis using True by (simp add: h1)
    next
      case False
      then have sj: "Suc i \<le> j \<and> j < length res" using j by simp
      have "refs ! j \<noteq> refs ! i"
        using False j ik Suc.prems \<open>distinct refs\<close> by (simp add: nth_eq_iff_index_eq)
      then have "heap d1 ! (refs ! j) = heap d ! (refs ! j)" by (simp add: h1)
      then show ?thesis using upd sj by simp
    qed
  next
    fix r assume r: "r \<notin> set (drop i (take (length res) refs))"
    then have "r \<noteq> refs ! i" "r \<notin> set (drop (Suc i) (take (length res) refs))"
      by (simp_all add: dropi)
    then show "heap d' ! r = heap d ! r" using oth by (simp add: h1)
  qed
qed

text \<open>
  The result object of the loop lists, in the order of the slots, the keys of the slots
  with code 0.
\<close>

lemma fold_update_fresh:
  assumes "distinct keys" and "n \<le> length keys" and "i \<le> n"
      and "fst ` set obj \<subseteq> (\<lambda>j. keys ! j) ` {..<i}"
  shows "fold (\<lambda>j ob. if P j then AList.update (keys ! j) (g j) ob else ob) [i..<n] obj =
           obj @ map (\<lambda>j. (keys ! j, g j)) (filter P [i..<n])"
  using assms
proof (induction "n - i" arbitrary: i obj)
  case 0
  then show ?case by simp
next
  case (Suc m)
  then have i: "i < n" by simp
  have range: "[i..<n] = i # [Suc i..<n]" using i by (simp add: upt_conv_Cons)
  have fresh: "keys ! i \<notin> fst ` set obj"
  proof
    assume "keys ! i \<in> fst ` set obj"
    then obtain j where "j < i" "keys ! j = keys ! i" using Suc.prems by auto
    then show False using \<open>distinct keys\<close> i Suc.prems(2) by (simp add: nth_eq_iff_index_eq)
  qed
  let ?o1 = "if P i then AList.update (keys ! i) (g i) obj else obj"
  have o1: "?o1 = obj @ (if P i then [(keys ! i, g i)] else [])"
    by (simp add: update_fresh_key [OF fresh])
  have keys1: "fst ` set ?o1 \<subseteq> (\<lambda>j. keys ! j) ` {..<Suc i}"
    using Suc.prems(4) by (auto simp add: o1 lessThan_Suc)
  have m: "m = n - Suc i" using Suc.hyps by simp
  have "Suc i \<le> n" using i by simp
  from Suc.hyps(1) [OF m Suc.prems(1) Suc.prems(2) this keys1]
  show ?case by (simp add: range o1)
qed

lemma readable_props_registered:
  assumes "distinct (map fst (properties d))" and "j < length (getAllReadableProps d)"
  shows "map_of (properties d) (map fst (getAllReadableProps d) ! j) =
           Some (map snd (getAllReadableProps d) ! j)"
proof -
  obtain k r where kr: "getAllReadableProps d ! j = (k, r)"
    by (cases "getAllReadableProps d ! j")
  have "getAllReadableProps d ! j \<in> set (getAllReadableProps d)" using assms(2) by simp
  then have "(k, r) \<in> set (getAllReadableProps d)" by (simp only: kr)
  moreover have "set (getAllReadableProps d) \<subseteq> set (properties d)"
    by (simp add: getAllReadableProps_def)
  ultimately have "(k, r) \<in> set (properties d)" by blast
  then have "map_of (properties d) k = Some r"
    by (rule map_of_is_SomeI [OF assms(1)])
  then show ?thesis using assms(2) by (simp add: kr)
qed

text \<open>
  \<open>requestAllProperties\<close> on a connected, well-formed device with \<open>N\<close> readable
  properties and a response of \<open>N\<close> slots: one \<open>get_properties\<close> call for the readable
  properties in registry order; property \<open>i\<close> gets the value of slot \<open>i\<close> when the
  code of that slot is 0 and keeps its cached value otherwise; the result object holds
  exactly the properties of the slots with code 0; no other property changes, and the
  promise is resolved whatever the codes are.
\<close>

lemma requestAllProperties_positional:
  assumes conn: "isConnected d" and wf: "wf_device d"
      and len: "length res = length (getAllReadableProps d)"
  shows "\<exists>d'. requestAllProperties d (Success res) =
                 (d', Resolved (RObj (map (\<lambda>i. (fst (getAllReadableProps d ! i), slot_value (res ! i)))
                                        (filter (\<lambda>i. slot_code (res ! i) = Some 0) [0..<length res]))))
            \<and> properties d' = properties d
            \<and> calls d' = calls d @ [Call COMMAND_GET
                  (map (\<lambda>(key, prop). getReadProtocolObjForDid (heap d ! prop) (deviceId d))
                     (getAllReadableProps d))]
            \<and> length (heap d') = length (heap d)
            \<and> (\<forall>i < length res.
                  heap d' ! snd (getAllReadableProps d ! i) =
                    (if slot_code (res ! i) = Some 0
                     then setValue (heap d ! snd (getAllReadableProps d ! i)) (slot_value (res ! i))
                     else heap d ! snd (getAllReadableProps d ! i)))
            \<and> (\<forall>r. r \<notin> snd ` set (getAllReadableProps d) \<longrightarrow> heap d' ! r = heap d ! r)"
proof -
  let ?ps = "getAllReadableProps d"
  let ?keys = "map fst ?ps" and ?refs = "map snd ?ps"
  let ?d1 = "d\<lparr>calls := calls d @ [Call COMMAND_GET
                  (map (\<lambda>(key, prop). getReadProtocolObjForDid (heap d ! prop) (deviceId d)) ?ps)]\<rparr>"
  have dk: "distinct ?keys" and dr: "distinct ?refs"
    using wf by (simp_all add: wf_device_def getAllReadableProps_def distinct_map_filter)
  have regs: "\<forall>j < length ?keys. map_of (properties ?d1) (?keys ! j) = Some (?refs ! j)"
    using wf readable_props_registered [of d] by (simp add: wf_device_def)
  have valid: "\<forall>j < length ?keys. ?refs ! j < length (heap ?d1)"
  proof (intro allI impI)
    fix j assume "j < length ?keys"
    then have "?ps ! j \<in> set (properties d)"
      using nth_mem [of j ?ps] by (simp add: getAllReadableProps_def)
    then show "?refs ! j < length (heap ?d1)"
      using wf \<open>j < length ?keys\<close> by (auto simp add: wf_device_def list_all_iff)
  qed
  have l1: "length res \<le> length ?keys" and l2: "length ?refs = length ?keys"
    using len by simp_all
  from requestAllProperties_loop_inv [OF l1 l2 dr regs valid, of "[]" 0]
  obtain d' where
    run: "requestAllProperties_loop ?d1 [] ?keys res 0 =
            (d', Resolved (RObj (fold (\<lambda>j ob. if slot_code (res ! j) = Some 0
                                              then AList.update (?keys ! j) (slot_value (res ! j)) ob
                                              else ob) [0..<length res] [])))"
    and fr: "properties d' = properties ?d1" "calls d' = calls ?d1"
      "length (heap d') = length (heap ?d1)"
    and upd: "\<forall>j. 0 \<le> j \<and> j < length res \<longrightarrow>
                  heap d' ! (?refs ! j) =
                    (if slot_code (res ! j) = Some 0
                     then setValue (heap ?d1 ! (?refs ! j)) (slot_value (res ! j))
                     else heap ?d1 ! (?refs ! j))"
    and oth: "\<forall>r. r \<notin> set (drop 0 (take (length res) ?refs)) \<longrightarrow> heap d' ! r = heap ?d1 ! r"
    by blast
  have obj: "fold (\<lambda>j ob. if slot_code (res ! j) = Some 0
                          then AList.update (?keys ! j) (slot_value (res ! j)) ob
                          else ob) [0..<length res] [] =
             map (\<lambda>j. (?keys ! j, slot_value (res ! j)))
               (filter (\<lambda>j. slot_code (res ! j) = Some 0) [0..<length res])"
    using fold_update_fresh [OF dk l1, of 0 "[]" "\<lambda>j. slot_code (res ! j) = Some 0"
        "\<lambda>j. slot_value (res ! j)"]
    by simp
  have keyeq: "map (\<lambda>j. (?keys ! j, slot_value (res ! j)))
                 (filter (\<lambda>j. slot_code (res ! j) = Some 0) [0..<length res]) =
               map (\<lambda>i. (fst (?ps ! i), slot_value (res ! i)))
                 (filter (\<lambda>i. slot_code (res ! i) = Some 0) [0..<length res])"
    using len by (intro map_cong refl) auto
  have req: "requestAllProperties d (Success res) = requestAllProperties_loop ?d1 [] ?keys res 0"
    using conn by (simp add: requestAllProperties_def Let_def)
  show ?thesis
  proof (intro exI [of _ d'] conjI allI impI)
    show "requestAllProperties d (Success res) =
            (d', Resolved (RObj (map (\<lambda>i. (fst (?ps ! i), slot_value (res ! i)))
                                   (filter (\<lambda>i. slot_code (res ! i) = Some 0) [0..<length res]))))"
      by (simp only: req run obj keyeq)
    show "properties d' = properties d" using fr by simp
    show "calls d' = calls d @ [Call COMMAND_GET
                  (map (\<lambda>(key, prop). getReadProtocolObjForDid (heap d ! prop) (deviceId d)) ?ps)]"
      using fr by simp
    show "length (heap d') = length (heap d)" using fr by simp
  next
    fix i assume "i < length res"
    then show "heap d' ! snd (?ps ! i) =
                 (if slot_code (res ! i) = Some 0
                  then setValue (heap d ! snd (?ps ! i)) (slot_value (res ! i))
                  else heap d ! snd (?ps ! i))"
      using upd len by simp
  next
    fix r assume "r \<notin> snd ` set ?ps"
    then show "heap d' ! r = heap d ! r" using oth len by simp
  qed
qed

text \<open>
  C1, at a response slot with code 0 and no value: \<open>power\<close> has the cached value
  \<open>true\<close>; the response \<open>[{code: 0}, {code: 0, value: 3}]\<close> sets its cached value to
  \<open>undefined\<close> and records \<open>power\<close> in the result object, and nothing is logged for
  the slot.
\<close>

theorem requestAllProperties_code_0_without_value:
  "snd (getPropertyValue example_ready ''power'') = Inr (JBool True)
   \<and> snd (requestAllProperties example_ready
             (Success [\<lparr>slot_code = Some 0, slot_value = JUndefined\<rparr>,
                       \<lparr>slot_code = Some 0, slot_value = JNum 3\<rparr>])) =
       Resolved (RObj [(''power'', JUndefined), (''fan_level'', JNum 3)])
   \<and> snd (getPropertyValue
             (fst (requestAllProperties example_ready
                (Success [\<lparr>slot_code = Some 0, slot_value = JUndefined\<rparr>,
                          \<lparr>slot_code = Some 0, slot_value = JNum 3\<rparr>])))
             ''power'') = Inr JUndefined
   \<and> logger (fst (requestAllProperties example_ready
                (Success [\<lparr>slot_code = Some 0, slot_value = JUndefined\<rparr>,
                          \<lparr>slot_code = Some 0, slot_value = JNum 3\<rparr>]))) =
       logger example_ready"
  by (simp add: example_ready_eval example_connected requestAllProperties_def
        getAllReadableProps_def isReadable_def getReadProtocolObjForDid_def
        requestAllProperties_loop.simps updatePropertyValueFromDevice_def getProperty_def
        registry_get_def getPropertyValue_def setValue_def getValue_def Let_def)


section \<open>Attaching a transport handle\<close>

text \<open>
  C9, at an attach that follows a detach: \<open>disconnectAndDestroyMiioDevice\<close> leaves
  the device without a handle, so the next \<open>updateMiioDevice\<close> takes the branch of the
  first attach and runs \<open>setupDevice\<close> again. The example fan has been set up once;
  after a detach and an attach its log has the entry of \<open>setupDevice\<close> twice and a second
  initial fetch was sent. An attach without a detach before it skips setup.
\<close>

theorem setup_runs_again_after_detach:
  "updateMiioDevice (disconnectAndDestroyMiioDevice d) newMiioDevice reply =
     setupDevice ((disconnectAndDestroyMiioDevice d)\<lparr>miioDevice := newMiioDevice\<rparr>) reply
   \<and> length (filter (\<lambda>e. e = (LInfo, ''Setting up device!'')) (logger example_ready)) = 1
   \<and> length (filter (\<lambda>e. e = (LInfo, ''Setting up device!''))
        (logger (updateMiioDevice (disconnectAndDestroyMiioDevice example_ready)
                   (Some example_handle) (Success [])))) = 2
   \<and> calls (updateMiioDevice (disconnectAndDestroyMiioDevice example_ready)
               (Some example_handle) (Success [])) =
       calls example_ready @
         [Destroy,
          Call COMMAND_GET
            [\<lparr>req_did = Some ''123'', req_siid = 2, req_piid = 1, req_value = None\<rparr>,
             \<lparr>req_did = Some ''123'', req_siid = 2, req_piid = 2, req_value = None\<rparr>]]
   \<and> calls (updateMiioDevice example_ready (Some example_handle) (Success [])) = calls example_ready"
proof -
  have logs: "logger example_ready =
      [(LInfo, ''Initializing device properties''),
       (LDebug, ''Device properties: ${JSON.stringify(this.properties, null, 2)}''),
       (LInfo, ''Initializing device capabilities''),
       (LDebug, ''Device capabillities: ${JSON.stringify(this.capabilities, null, 2)}''),
       (LInfo, ''Setting up device!''),
       (LInfo, ''Doing device specific setup''),
       (LInfo, ''Doing initial properties fetch''),
       (LDebug, ''Got initial device properties: ${JSON.stringify(this.getAllPropNameValues(), null, 2)}''),
       (LInfo, ''Device setup finished! Device ready, you can now control your device!'')]"
    by (simp add: example_ready_def example_unbound_def example_handle_def model_defs)
  have general: "updateMiioDevice (disconnectAndDestroyMiioDevice d) newMiioDevice reply =
     setupDevice ((disconnectAndDestroyMiioDevice d)\<lparr>miioDevice := newMiioDevice\<rparr>) reply"
    by (simp add: updateMiioDevice_def disconnectAndDestroyMiioDevice_def Let_def)
  have once: "length (filter (\<lambda>e. e = (LInfo, ''Setting up device!'')) (logger example_ready)) = 1"
    by (simp add: logs)
  have twice: "length (filter (\<lambda>e. e = (LInfo, ''Setting up device!''))
        (logger (updateMiioDevice (disconnectAndDestroyMiioDevice example_ready)
                   (Some example_handle) (Success [])))) = 2"
    by (simp add: logs example_ready_eval example_handle_def model_defs)
  have fetch: "calls (updateMiioDevice (disconnectAndDestroyMiioDevice example_ready)
               (Some example_handle) (Success [])) =
       calls example_ready @
         [Destroy,
          Call COMMAND_GET
            [\<lparr>req_did = Some ''123'', req_siid = 2, req_piid = 1, req_value = None\<rparr>,
             \<lparr>req_did = Some ''123'', req_siid = 2, req_piid = 2, req_value = None\<rparr>]]"
    by (simp add: example_ready_eval example_handle_def model_defs)
  have skip: "calls (updateMiioDevice example_ready (Some example_handle) (Success [])) = calls example_ready"
    by (simp add: updateMiioDevice_def example_ready_eval)
  from general once twice fetch skip show ?thesis by simp
qed

end
